theory Spec2Isabelle
  imports Main
begin

section \<open>Values of the authentication subsystem\<close>

text \<open>
  The development embeds the authentication route (register, login, logout, refresh-token),
  the request authenticator \<open>protect\<close> with \<open>verifyAccessToken\<close>, and the token-bearing
  part of the user model (\<open>userSchema\<close>, its pre-save hook, \<open>comparePassword\<close>,
  \<open>generateAuthTokens\<close>, \<open>generateVerificationToken\<close>).

  Strings are lists of 8-bit characters. The model is exact for ASCII text, where bytes,
  UTF-16 code units and characters coincide; the length tests, \<open>trim\<close> and
  \<open>toLowerCase\<close> below follow JavaScript on such text only. A Mongo ObjectId is a
  natural number. Time is the number of
  milliseconds since the epoch, as \<open>Date.now()\<close> gives it; one request reads one clock
  value. Console output is not modelled. The store is taken to be reachable: its
  operations raise only for the reasons the schema gives (validation, unique index).
\<close>

type_synonym oid = nat

datatype role = RUser | RAdmin

fun role_str :: "role \<Rightarrow> string" where
  "role_str RUser = ''user''"
| "role_str RAdmin = ''admin''"

subsection \<open>Thrown errors\<close>

text \<open>A JavaScript error object, as far as the handlers inspect it: \<open>name\<close> and \<open>message\<close>.\<close>

datatype exn = Exn (exn_name: string) (exn_message: string)

definition Error :: "string \<Rightarrow> exn" where
  "Error m = Exn ''Error'' m"

subsection \<open>Request values\<close>

text \<open>
  The values of the members of a JSON request body. \<open>JNumber d\<close> is a number that
  JavaScript renders as the string \<open>d\<close>. Arrays are not modelled.
\<close>

datatype json = JNull | JBool bool | JNumber string | JString string | JObject

text \<open>The string the validators and sanitizers of the chains work on; a missing member
  reads as the empty string.\<close>

fun to_str :: "json option \<Rightarrow> string" where
  "to_str None = []"
| "to_str (Some JNull) = []"
| "to_str (Some (JBool b)) = (if b then ''true'' else ''false'')"
| "to_str (Some (JNumber d)) = d"
| "to_str (Some (JString s)) = s"
| "to_str (Some JObject) = ''[object Object]''"

text \<open>The cast of a document path of type String: numbers and booleans are rendered,
  an object is a cast error, and a missing or null value fails \<open>required\<close>.\<close>

fun cast_string :: "json option \<Rightarrow> string option" where
  "cast_string None = None"
| "cast_string (Some JNull) = None"
| "cast_string (Some (JBool b)) = Some (if b then ''true'' else ''false'')"
| "cast_string (Some (JNumber d)) = Some d"
| "cast_string (Some (JString s)) = Some s"
| "cast_string (Some JObject) = None"

subsection \<open>bcryptjs\<close>

text \<open>
  A bcrypt hash is kept symbolic: the salt and the key material that bcrypt reads. bcryptjs
  appends a NUL byte to the password and cycles the result through the 72 bytes of the key
  schedule, so two passwords with the same 72 bytes of cycled material have the same hash.
  \<open>bcrypt.compare\<close> recomputes the hash with the salt embedded in the stored one and
  compares.
\<close>

datatype hash = Bcrypt nat string

definition bcrypt_key :: "string \<Rightarrow> string" where
  "bcrypt_key plaintext = take 72 (concat (replicate 72 (plaintext @ [CHR 0x00])))"

definition bcrypt_hash :: "string \<Rightarrow> nat \<Rightarrow> hash" where
  "bcrypt_hash plaintext salt = Bcrypt salt (bcrypt_key plaintext)"

fun bcrypt_compare :: "string \<Rightarrow> hash \<Rightarrow> bool" where
  "bcrypt_compare candidate (Bcrypt salt k) = (bcrypt_hash candidate salt = Bcrypt salt k)"

subsection \<open>jsonwebtoken\<close>

text \<open>
  A cookie value is a string. Such a string either is the compact serialisation of a
  signed token, \<open>Jwt k c n\<close> with the HMAC key \<open>k\<close> it was signed with and its claims
  \<open>c\<close>, or it is not, \<open>Raw s\<close>. Different strings can carry the same claims under the
  same key (another member order, another header); the number \<open>n\<close> tells them apart,
  and \<open>0\<close> is the string \<open>jwt.sign\<close> writes, which is determined by the key and the
  claims. So two values of this type are equal exactly when the strings are. The claims are
  those this program writes: \<open>id\<close>, \<open>role\<close> (access tokens only), \<open>iat\<close> and
  \<open>exp\<close> in seconds.
\<close>

datatype claims = Claims (c_id: oid) (c_role: "role option") (c_iat: nat) (c_exp: nat)

datatype token = Raw string | Jwt string claims nat

text \<open>JavaScript truthiness of a string value: only the empty string is falsy.\<close>

fun truthy :: "token \<Rightarrow> bool" where
  "truthy (Raw s) = (s \<noteq> [])"
| "truthy (Jwt k c n) = True"

text \<open>Truthiness of an environment variable: \<open>undefined\<close> and the empty string are falsy.\<close>

fun configured :: "string option \<Rightarrow> bool" where
  "configured None = False"
| "configured (Some s) = (s \<noteq> [])"

definition JsonWebTokenError :: "string \<Rightarrow> exn" where
  "JsonWebTokenError m = Exn ''JsonWebTokenError'' m"

definition TokenExpiredError :: exn where
  "TokenExpiredError = Exn ''TokenExpiredError'' ''jwt expired''"

text \<open>
  \<open>jwt.sign(payload, secret, {expiresIn})\<close>: \<open>iat\<close> is the clock in whole seconds and
  \<open>exp = iat + lifetime\<close>. A missing or empty secret throws.
\<close>

definition jwt_sign :: "oid \<Rightarrow> role option \<Rightarrow> string option \<Rightarrow> nat \<Rightarrow> nat \<Rightarrow> exn + token" where
  "jwt_sign sub r secret lifetime now =
     (case secret of
        None \<Rightarrow> Inl (Error ''secretOrPrivateKey must have a value'')
      | Some k \<Rightarrow>
          if k = [] then Inl (Error ''secretOrPrivateKey must have a value'')
          else Inr (Jwt k (Claims sub r (now div 1000) (now div 1000 + lifetime)) 0))"

text \<open>
  \<open>jwt.verify(token, secret)\<close>: structure first, then the secret, then the signature,
  then the expiry (\<open>clock >= exp\<close> is expired).
\<close>

fun jwt_verify :: "token \<Rightarrow> string option \<Rightarrow> nat \<Rightarrow> exn + claims" where
  "jwt_verify (Raw s) secret now =
     Inl (JsonWebTokenError (if s = [] then ''jwt must be provided'' else ''jwt malformed''))"
| "jwt_verify (Jwt k c n) secret now =
     (if \<not> configured secret then Inl (JsonWebTokenError ''secret or public key must be provided'')
      else if secret \<noteq> Some k then Inl (JsonWebTokenError ''invalid signature'')
      else if c_exp c \<le> now div 1000 then Inl TokenExpiredError
      else Inr c)"

subsection \<open>Process environment\<close>

record env =
  JWT_SECRET :: "string option"
  REFRESH_TOKEN_SECRET :: "string option"
  NODE_ENV :: "string option"

subsection \<open>User documents\<close>

text \<open>
  One record serves for the stored document and for a loaded one. In a loaded document
  \<open>password\<close> and \<open>refreshToken\<close> are \<open>None\<close> when the query did not select them
  (both are \<open>select: false\<close> in the schema); in the store \<open>refreshToken = None\<close> is the
  unset field.
\<close>

record user =
  uid :: oid
  name :: string
  email :: string
  password :: "hash option"
  isEmailVerified :: bool
  isActive :: bool
  lastLogin :: "nat option"
  role :: role
  avatar :: string
  phone :: string
  refreshToken :: "token option"
  createdAt :: nat
  updatedAt :: nat

record state =
  users :: "user list"
  next_oid :: nat
  next_salt :: nat

subsection \<open>String setters of the schema\<close>

definition is_space :: "char \<Rightarrow> bool" where
  "is_space c = (c \<in> set [CHR '' '', CHR 0x09, CHR 0x0A, CHR 0x0B, CHR 0x0C, CHR 0x0D])"

definition trim :: "string \<Rightarrow> string" where
  "trim s = rev (dropWhile is_space (rev (dropWhile is_space s)))"

text \<open>\<open>toLowerCase\<close> on the ASCII letters; other bytes are kept.\<close>

definition lower_char :: "char \<Rightarrow> char" where
  "lower_char c =
     (case map_of (zip ''ABCDEFGHIJKLMNOPQRSTUVWXYZ'' ''abcdefghijklmnopqrstuvwxyz'') c of
        None \<Rightarrow> c
      | Some d \<Rightarrow> d)"

definition lowercase :: "string \<Rightarrow> string" where
  "lowercase s = map lower_char s"

text \<open>The \<open>email\<close> path has \<open>trim: true, lowercase: true\<close>; the setters run on
  assignment and on query filters.\<close>

definition set_email :: "string \<Rightarrow> string" where
  "set_email s = lowercase (trim s)"

text \<open>\<open>match: /^\S+@\S+\.\S+$/\<close>\<close>

definition match_email :: "string \<Rightarrow> bool" where
  "match_email s =
     ((\<forall>c \<in> set s. \<not> is_space c) \<and>
      (\<exists>i \<in> {..<length s}. \<exists>j \<in> {..<length s}.
         s ! i = CHR ''@'' \<and> s ! j = CHR ''.'' \<and> 1 \<le> i \<and> i + 2 \<le> j \<and> j + 2 \<le> length s))"

subsection \<open>Store operations\<close>

definition findOne_email :: "state \<Rightarrow> string \<Rightarrow> user option" where
  "findOne_email st em = find (\<lambda>u. email u = set_email em) (users st)"

definition findById :: "state \<Rightarrow> oid \<Rightarrow> user option" where
  "findById st i = find (\<lambda>u. uid u = i) (users st)"

text \<open>\<open>User.findOne({ _id, refreshToken })\<close>\<close>

definition findOne_id_refreshToken :: "state \<Rightarrow> oid \<Rightarrow> token \<Rightarrow> user option" where
  "findOne_id_refreshToken st i t =
     find (\<lambda>u. uid u = i \<and> refreshToken u = Some t) (users st)"

text \<open>Writing the modified paths of a loaded document back (\<open>save\<close> on an existing
  document, \<open>findByIdAndUpdate\<close>); with \<open>timestamps: true\<close> this sets \<open>updatedAt\<close>.\<close>

definition updateFields :: "state \<Rightarrow> oid \<Rightarrow> (user \<Rightarrow> user) \<Rightarrow> nat \<Rightarrow> state" where
  "updateFields st i f now =
     st\<lparr>users := map (\<lambda>u. if uid u = i then (f u)\<lparr>updatedAt := now\<rparr> else u) (users st)\<rparr>"

text \<open>Projections of a stored document as the queries of this program load it.\<close>

definition select_default :: "user \<Rightarrow> user" where
  "select_default u = u\<lparr>password := None, refreshToken := None\<rparr>"

definition select_plus_password :: "user \<Rightarrow> user" where
  "select_plus_password u = u\<lparr>refreshToken := None\<rparr>"

text \<open>
  \<open>new User({name, email, password, isEmailVerified: false})\<close> followed by the first
  \<open>save()\<close>: schema validation, then the pre-save hook (salt and hash), then the insert
  under the unique index on \<open>email\<close>.
\<close>

definition validate_new :: "string \<Rightarrow> string \<Rightarrow> json option \<Rightarrow> bool" where
  "validate_new nm em pw =
     (2 \<le> length (trim nm) \<and> length (trim nm) \<le> 50 \<and> match_email (set_email em) \<and>
      (case cast_string pw of None \<Rightarrow> False | Some s \<Rightarrow> 8 \<le> length s))"

definition save_new ::
  "state \<Rightarrow> string \<Rightarrow> string \<Rightarrow> json option \<Rightarrow> nat \<Rightarrow> state \<times> (exn + user)" where
  "save_new st nm em pw now =
     (case (if validate_new nm em pw then cast_string pw else None) of
        None \<Rightarrow> (st, Inl (Exn ''ValidationError'' ''User validation failed''))
      | Some plaintext \<Rightarrow>
          let salt = next_salt st;
              st1 = st\<lparr>next_salt := Suc salt\<rparr>;
              u = \<lparr>uid = next_oid st, name = trim nm, email = set_email em,
                   password = Some (bcrypt_hash plaintext salt), isEmailVerified = False,
                   isActive = True, lastLogin = None, role = RUser, avatar = [], phone = [],
                   refreshToken = None, createdAt = now, updatedAt = now\<rparr>
          in if \<exists>v \<in> set (users st). email v = set_email em
             then (st1, Inl (Exn ''MongoServerError'' ''E11000 duplicate key error''))
             else (st1\<lparr>users := users st1 @ [u], next_oid := Suc (next_oid st1)\<rparr>, Inr u))"

subsection \<open>Methods of the user model\<close>

text \<open>\<open>bcrypt.compare\<close> rejects an argument that is not a string; the method rethrows
  that as \<open>Error comparing passwords\<close>.\<close>

definition comparePassword :: "user \<Rightarrow> json option \<Rightarrow> exn + bool" where
  "comparePassword u candidatePassword =
     (case password u of
        None \<Rightarrow> Inl (Error ''Error comparing passwords'')
      | Some h \<Rightarrow>
          (case candidatePassword of
             Some (JString s) \<Rightarrow> Inr (bcrypt_compare s h)
           | _ \<Rightarrow> Inl (Error ''Error comparing passwords'')))"

definition generateAuthTokens :: "env \<Rightarrow> user \<Rightarrow> nat \<Rightarrow> exn + (token \<times> token)" where
  "generateAuthTokens e u now =
     (if \<not> configured (JWT_SECRET e) \<or> \<not> configured (REFRESH_TOKEN_SECRET e)
      then Inl (Error ''JWT secrets are not configured'')
      else
        case jwt_sign (uid u) (Some (role u)) (JWT_SECRET e) (15 * 60) now of
          Inl x \<Rightarrow> Inl x
        | Inr accessToken \<Rightarrow>
            (case jwt_sign (uid u) None (REFRESH_TOKEN_SECRET e) (7 * 24 * 60 * 60) now of
               Inl x \<Rightarrow> Inl x
             | Inr refreshTok \<Rightarrow> Inr (accessToken, refreshTok)))"

definition generateVerificationToken :: "env \<Rightarrow> user \<Rightarrow> nat \<Rightarrow> exn + token" where
  "generateVerificationToken e u now = jwt_sign (uid u) None (JWT_SECRET e) (24 * 60 * 60) now"

section \<open>HTTP responses\<close>

text \<open>JSON bodies: atomic values, the user object, and the list of validation messages.
  A hash and a token are strings of the response; they stay symbolic.\<close>

datatype atom = AStr string | ABool bool | ANum nat | AId oid | ADate nat | AHash hash | ATok token

datatype jsval = Atom atom | Obj "(string \<times> atom) list" | Strs "string list"

record cookie_options =
  httpOnly :: bool
  secure :: bool
  sameSite :: string
  domain :: "string option"
  path :: string
  maxAge :: "nat option"

datatype cookie_op = SetCookie string token cookie_options | ClearCookie string cookie_options

record response =
  status :: nat
  body :: "(string \<times> jsval) list"
  cookie_ops :: "cookie_op list"

definition production :: "env \<Rightarrow> bool" where
  "production e = (NODE_ENV e = Some ''production'')"

definition getCookieOptions :: "env \<Rightarrow> bool \<Rightarrow> cookie_options" where
  "getCookieOptions e isRefreshToken =
     \<lparr>httpOnly = True,
      secure = production e,
      sameSite = (if production e then ''none'' else ''lax''),
      domain = (if production e then Some ''.yourdomain.com'' else None),
      path = (if isRefreshToken then ''/api/auth/refresh-token'' else ''/''),
      maxAge = Some (if isRefreshToken then 7 * 24 * 60 * 60 * 1000 else 15 * 60 * 1000)\<rparr>"

definition setTokenCookies :: "env \<Rightarrow> token \<Rightarrow> token \<Rightarrow> cookie_op list" where
  "setTokenCookies e accessToken refreshTok =
     [SetCookie ''accessToken'' accessToken (getCookieOptions e False),
      SetCookie ''refreshToken'' refreshTok (getCookieOptions e True),
      ClearCookie ''token'' ((getCookieOptions e False)\<lparr>path := ''/''\<rparr>)]"

text \<open>\<open>baseClearOpts\<close> of the logout and refresh handlers, with the path added.\<close>

definition baseClearOpts :: "env \<Rightarrow> string \<Rightarrow> cookie_options" where
  "baseClearOpts e p =
     \<lparr>httpOnly = True,
      secure = production e,
      sameSite = (if production e then ''none'' else ''lax''),
      domain = (if production e then Some ''.yourdomain.com'' else None),
      path = p,
      maxAge = None\<rparr>"

definition clearAll :: "env \<Rightarrow> cookie_op list" where
  "clearAll e =
     [ClearCookie ''accessToken'' (baseClearOpts e ''/''),
      ClearCookie ''refreshToken'' (baseClearOpts e ''/api/auth/refresh-token''),
      ClearCookie ''token'' (baseClearOpts e ''/'')]"

text \<open>\<open>user.toObject()\<close>: the paths that are set on the document, and the version key.\<close>

definition toObject :: "user \<Rightarrow> (string \<times> atom) list" where
  "toObject u =
     [(''_id'', AId (uid u)), (''name'', AStr (name u)), (''email'', AStr (email u))]
     @ (case password u of None \<Rightarrow> [] | Some h \<Rightarrow> [(''password'', AHash h)])
     @ [(''isEmailVerified'', ABool (isEmailVerified u)), (''isActive'', ABool (isActive u))]
     @ (case lastLogin u of None \<Rightarrow> [] | Some d \<Rightarrow> [(''lastLogin'', ADate d)])
     @ [(''role'', AStr (role_str (role u))), (''avatar'', AStr (avatar u)),
        (''phone'', AStr (phone u))]
     @ (case refreshToken u of None \<Rightarrow> [] | Some t \<Rightarrow> [(''refreshToken'', ATok t)])
     @ [(''createdAt'', ADate (createdAt u)), (''updatedAt'', ADate (updatedAt u)),
        (''__v'', ANum 0)]"

text \<open>\<open>delete obj.key\<close>\<close>

definition delete_key :: "string \<Rightarrow> (string \<times> atom) list \<Rightarrow> (string \<times> atom) list" where
  "delete_key k obj = filter (\<lambda>kv. fst kv \<noteq> k) obj"

text \<open>The body of a \<open>catch\<close> block of the auth route: \<open>error.message\<close> is included in
  development only.\<close>

definition server_error :: "env \<Rightarrow> string \<Rightarrow> exn \<Rightarrow> response" where
  "server_error e msg x =
     \<lparr>status = 500,
      body = [(''success'', Atom (ABool False)), (''message'', Atom (AStr msg))]
             @ (if NODE_ENV e = Some ''development''
                then [(''error'', Atom (AStr (exn_message x)))] else []),
      cookie_ops = []\<rparr>"

section \<open>The auth route\<close>

text \<open>A request body is a JSON object, a map from member names to values; a missing
  member reads as the empty string in the validators.\<close>

definition field :: "(string \<rightharpoonup> json) \<Rightarrow> string \<Rightarrow> string" where
  "field b k = to_str (b k)"

text \<open>The validation chains. \<open>isEmail\<close> is the validator library's predicate, a
  parameter. The messages stand for the error objects of \<open>errors.array()\<close>. The login
  chain asks of the password only that it exists.\<close>

definition register_errors :: "(string \<Rightarrow> bool) \<Rightarrow> (string \<rightharpoonup> json) \<Rightarrow> string list" where
  "register_errors isEmail b =
     (if trim (field b ''name'') = [] then [''Name is required''] else [])
     @ (if \<not> isEmail (trim (field b ''email'')) then [''Please include a valid email''] else [])
     @ (if length (field b ''password'') < 8
        then [''Password must be at least 8 characters''] else [])"

definition login_errors :: "(string \<Rightarrow> bool) \<Rightarrow> (string \<rightharpoonup> json) \<Rightarrow> string list" where
  "login_errors isEmail b =
     (if \<not> isEmail (field b ''email'') then [''Please include a valid email''] else [])
     @ (if b ''password'' = None then [''Password is required''] else [])"

definition validation_failed :: "string list \<Rightarrow> response" where
  "validation_failed errors =
     \<lparr>status = 400,
      body = [(''success'', Atom (ABool False)), (''errors'', Strs errors)],
      cookie_ops = []\<rparr>"

subsection \<open>POST /api/auth/register\<close>

definition register ::
  "env \<Rightarrow> (string \<Rightarrow> bool) \<Rightarrow> state \<Rightarrow> (string \<rightharpoonup> json) \<Rightarrow> nat \<Rightarrow> state \<times> response" where
  "register e isEmail st b now =
     (let errors = register_errors isEmail b in
      if errors \<noteq> [] then (st, validation_failed errors)
      else
        let nm = trim (field b ''name''); em = trim (field b ''email'');
            pw = b ''password''
        in case findOne_email st em of
             Some existingUser \<Rightarrow>
               (st, \<lparr>status = 400,
                     body = [(''success'', Atom (ABool False)),
                             (''message'', Atom (AStr ''Email is already registered''))],
                     cookie_ops = []\<rparr>)
           | None \<Rightarrow>
               (case save_new st nm em pw now of
                  (st1, Inl x) \<Rightarrow> (st1, server_error e ''Server error during registration'' x)
                | (st1, Inr u) \<Rightarrow>
                    (case generateVerificationToken e u now of
                       Inl x \<Rightarrow> (st1, server_error e ''Server error during registration'' x)
                     | Inr verificationToken \<Rightarrow>
                         (case generateAuthTokens e u now of
                            Inl x \<Rightarrow>
                              (st1, server_error e ''Server error during registration'' x)
                          | Inr (accessToken, refreshTok) \<Rightarrow>
                              let st2 = updateFields st1 (uid u)
                                          (\<lambda>v. v\<lparr>refreshToken := Some refreshTok\<rparr>) now;
                                  u2 = u\<lparr>refreshToken := Some refreshTok, updatedAt := now\<rparr>;
                                  userResponse =
                                    delete_key ''refreshToken''
                                      (delete_key ''password'' (toObject u2))
                              in (st2,
                                  \<lparr>status = 201,
                                   body = [(''success'', Atom (ABool True)),
                                           (''message'', Atom (AStr
                                              ''Registration successful. Please check your email to verify your account.'')),
                                           (''user'', Obj userResponse),
                                           (''accessToken'', Atom (ATok accessToken))],
                                   cookie_ops = setTokenCookies e accessToken refreshTok\<rparr>)))))"

subsection \<open>POST /api/auth/login\<close>

text \<open>The email is not sanitized here; the query casts the filter value to a string,
  which for a value the validator reads as an email is the string the validator read. The
  password is handed to \<open>comparePassword\<close> as it came.\<close>

definition login ::
  "env \<Rightarrow> (string \<Rightarrow> bool) \<Rightarrow> state \<Rightarrow> (string \<rightharpoonup> json) \<Rightarrow> nat \<Rightarrow> state \<times> response" where
  "login e isEmail st b now =
     (let errors = login_errors isEmail b in
      if errors \<noteq> [] then (st, validation_failed errors)
      else
        let em = field b ''email''; pw = b ''password''
        in case map_option select_plus_password (findOne_email st em) of
             None \<Rightarrow>
               (st, \<lparr>status = 401,
                     body = [(''success'', Atom (ABool False)),
                             (''message'', Atom (AStr ''Invalid credentials''))],
                     cookie_ops = []\<rparr>)
           | Some u \<Rightarrow>
               (case comparePassword u pw of
                  Inl x \<Rightarrow> (st, server_error e ''Server error during login'' x)
                | Inr isMatch \<Rightarrow>
                    if \<not> isMatch then
                      (st, \<lparr>status = 401,
                            body = [(''success'', Atom (ABool False)),
                                    (''message'', Atom (AStr ''Invalid credentials''))],
                            cookie_ops = []\<rparr>)
                    else if \<not> isActive u then
                      (st, \<lparr>status = 403,
                            body = [(''success'', Atom (ABool False)),
                                    (''message'', Atom (AStr
                                       ''Account is deactivated. Please contact support.''))],
                            cookie_ops = []\<rparr>)
                    else
                      let st1 = updateFields st (uid u) (\<lambda>v. v\<lparr>lastLogin := Some now\<rparr>) now;
                          u1 = u\<lparr>lastLogin := Some now, updatedAt := now\<rparr>
                      in (case generateAuthTokens e u1 now of
                           Inl x \<Rightarrow> (st1, server_error e ''Server error during login'' x)
                         | Inr (accessToken, refreshTok) \<Rightarrow>
                             let st2 = updateFields st1 (uid u)
                                         (\<lambda>v. v\<lparr>refreshToken := Some refreshTok\<rparr>) now;
                                 u2 = u1\<lparr>refreshToken := Some refreshTok\<rparr>;
                                 userResponse =
                                   delete_key ''refreshToken''
                                     (delete_key ''password'' (toObject u2))
                             in (st2,
                                 \<lparr>status = 200,
                                  body = [(''success'', Atom (ABool True)),
                                          (''message'', Atom (AStr ''Login successful'')),
                                          (''user'', Obj userResponse),
                                          (''accessToken'', Atom (ATok accessToken))],
                                  cookie_ops = setTokenCookies e accessToken refreshTok\<rparr>))))"

subsection \<open>POST /api/auth/logout\<close>

text \<open>Request cookies are a map from cookie names to values. \<open>cookie c k\<close> is the value
  when it is truthy, as the \<open>if (refreshToken)\<close> and \<open>!refreshToken\<close> tests read it.
  In the logout handler the verification and the store update sit in the inner \<open>try\<close>,
  whose \<open>catch\<close> only logs; nothing else in the handler throws.\<close>

definition cookie :: "(string \<rightharpoonup> token) \<Rightarrow> string \<Rightarrow> token option" where
  "cookie c k = (case c k of None \<Rightarrow> None | Some t \<Rightarrow> if truthy t then Some t else None)"

definition logout :: "env \<Rightarrow> state \<Rightarrow> (string \<rightharpoonup> token) \<Rightarrow> nat \<Rightarrow> state \<times> response" where
  "logout e st c now =
     (let st1 =
        (case cookie c ''refreshToken'' of
           None \<Rightarrow> st
         | Some refreshTok \<Rightarrow>
             (case jwt_verify refreshTok (REFRESH_TOKEN_SECRET e) now of
                Inl x \<Rightarrow> st
              | Inr decoded \<Rightarrow>
                  updateFields st (c_id decoded) (\<lambda>v. v\<lparr>refreshToken := None\<rparr>) now))
      in (st1,
          \<lparr>status = 200,
           body = [(''success'', Atom (ABool True)),
                   (''message'', Atom (AStr ''Logout successful''))],
           cookie_ops = clearAll e\<rparr>))"

subsection \<open>POST /api/auth/refresh-token\<close>

definition refresh_catch :: "env \<Rightarrow> response" where
  "refresh_catch e =
     \<lparr>status = 401,
      body = [(''success'', Atom (ABool False)),
              (''message'', Atom (AStr ''Invalid or expired refresh token'')),
              (''shouldLogout'', Atom (ABool True))],
      cookie_ops = clearAll e\<rparr>"

definition refresh_token :: "env \<Rightarrow> state \<Rightarrow> (string \<rightharpoonup> token) \<Rightarrow> nat \<Rightarrow> state \<times> response" where
  "refresh_token e st c now =
     (case cookie c ''refreshToken'' of
        None \<Rightarrow>
          (st, \<lparr>status = 401,
                body = [(''success'', Atom (ABool False)),
                        (''message'', Atom (AStr ''No refresh token provided'')),
                        (''shouldLogout'', Atom (ABool True))],
                cookie_ops = []\<rparr>)
      | Some refreshTok \<Rightarrow>
          (case jwt_verify refreshTok (REFRESH_TOKEN_SECRET e) now of
             Inl x \<Rightarrow> (st, refresh_catch e)
           | Inr decoded \<Rightarrow>
               (case map_option select_default
                       (findOne_id_refreshToken st (c_id decoded) refreshTok) of
                  None \<Rightarrow>
                    (st, \<lparr>status = 403,
                          body = [(''success'', Atom (ABool False)),
                                  (''message'', Atom (AStr ''Invalid refresh token'')),
                                  (''shouldLogout'', Atom (ABool True))],
                          cookie_ops = []\<rparr>)
                | Some u \<Rightarrow>
                    (case generateAuthTokens e u now of
                       Inl x \<Rightarrow> (st, refresh_catch e)
                     | Inr (newAccessToken, newRefreshToken) \<Rightarrow>
                         (updateFields st (uid u)
                            (\<lambda>v. v\<lparr>refreshToken := Some newRefreshToken\<rparr>) now,
                          \<lparr>status = 200,
                           body = [(''success'', Atom (ABool True)),
                                   (''accessToken'', Atom (ATok newAccessToken))],
                           cookie_ops = setTokenCookies e newAccessToken newRefreshToken\<rparr>)))))"

section \<open>The request authenticator\<close>

definition verifyAccessToken :: "env \<Rightarrow> token \<Rightarrow> nat \<Rightarrow> exn + claims" where
  "verifyAccessToken e t now =
     (case (if \<not> configured (JWT_SECRET e) then Inl (Error ''JWT_SECRET is not configured'')
            else jwt_verify t (JWT_SECRET e) now) of
        Inr decoded \<Rightarrow> Inr decoded
      | Inl x \<Rightarrow>
          if exn_name x = ''TokenExpiredError'' then Inl (Error ''Access token expired'')
          else Inl (Error ''Invalid access token''))"

text \<open>The middleware either calls \<open>next()\<close> with \<open>req.user\<close> attached or answers itself.
  Everything after the cookie read runs inside the inner \<open>try\<close>, and the cookie parser is
  installed before the routes, so the outer \<open>catch\<close> (status 500) has no thrower.\<close>

datatype outcome = Next user | Respond response

text \<open>\<open>req.cookies.accessToken || req.cookies.token\<close>\<close>

definition access_cookie :: "(string \<rightharpoonup> token) \<Rightarrow> token option" where
  "access_cookie c =
     (case c ''accessToken'' of
        None \<Rightarrow> c ''token''
      | Some t \<Rightarrow> if truthy t then Some t else c ''token'')"

definition protect :: "env \<Rightarrow> state \<Rightarrow> (string \<rightharpoonup> token) \<Rightarrow> nat \<Rightarrow> outcome" where
  "protect e st c now =
     (case access_cookie c of
        None \<Rightarrow> Respond \<lparr>status = 401,
                          body = [(''success'', Atom (ABool False)),
                                  (''message'', Atom (AStr ''No access token provided'')),
                                  (''shouldRefresh'', Atom (ABool True))],
                          cookie_ops = []\<rparr>
      | Some accessToken \<Rightarrow>
          if \<not> truthy accessToken
          then Respond \<lparr>status = 401,
                        body = [(''success'', Atom (ABool False)),
                                (''message'', Atom (AStr ''No access token provided'')),
                                (''shouldRefresh'', Atom (ABool True))],
                        cookie_ops = []\<rparr>
          else
            (case (case verifyAccessToken e accessToken now of
                     Inl x \<Rightarrow> Inl x
                   | Inr decoded \<Rightarrow>
                       (case map_option select_default (findById st (c_id decoded)) of
                          None \<Rightarrow> Inl (Error ''User not found'')
                        | Some u \<Rightarrow> Inr u)) of
               Inr u \<Rightarrow> Next u
             | Inl x \<Rightarrow>
                 let isExpired = (exn_message x = ''Access token expired'')
                 in Respond \<lparr>status = 401,
                             body = [(''success'', Atom (ABool False)),
                                     (''message'', Atom (AStr (if isExpired
                                        then ''Access token expired''
                                        else ''Invalid access token''))),
                                     (''shouldRefresh'', Atom (ABool isExpired)),
                                     (''shouldLogout'', Atom (ABool (\<not> isExpired)))],
                             cookie_ops = []\<rparr>))"

text \<open>\<open>admin\<close>: the role gate over the attached identity.\<close>

definition admin :: "user option \<Rightarrow> bool" where
  "admin req_user = (case req_user of None \<Rightarrow> False | Some u \<Rightarrow> role u = RAdmin)"

section \<open>Observations on responses\<close>

text \<open>The name a \<open>clearCookie\<close> call clears.\<close>

fun cleared :: "cookie_op \<Rightarrow> string option" where
  "cleared (ClearCookie n opts) = Some n"
| "cleared (SetCookie n t opts) = None"

text \<open>All atomic values that occur in a response body, at any depth.\<close>

fun atoms_of :: "jsval \<Rightarrow> atom list" where
  "atoms_of (Atom a) = [a]"
| "atoms_of (Obj kvs) = map snd kvs"
| "atoms_of (Strs ss) = []"

definition body_atoms :: "response \<Rightarrow> atom list" where
  "body_atoms r = concat (map (\<lambda>kv. atoms_of (snd kv)) (body r))"

fun is_hash :: "atom \<Rightarrow> bool" where
  "is_hash (AHash h) = True"
| "is_hash a = False"

text \<open>The \<open>user\<close> member of a response body.\<close>

definition user_object :: "response \<Rightarrow> (string \<times> atom) list option" where
  "user_object r = (case map_of (body r) ''user'' of Some (Obj kvs) \<Rightarrow> Some kvs | _ \<Rightarrow> None)"

section \<open>A worked configuration\<close>

text \<open>A development environment with two different secrets, an empty store, and the
  store after one registration at clock value 5000.\<close>

definition env0 :: env where
  "env0 = \<lparr>JWT_SECRET = Some ''A'', REFRESH_TOKEN_SECRET = Some ''B'', NODE_ENV = None\<rparr>"

definition st0 :: state where
  "st0 = \<lparr>users = [], next_oid = 0, next_salt = 0\<rparr>"

definition body_al :: "string \<rightharpoonup> json" where
  "body_al = [''name'' \<mapsto> JString ''Al'', ''email'' \<mapsto> JString '' A@b.co'',
              ''password'' \<mapsto> JString ''12345678'']"

definition body_al_again :: "string \<rightharpoonup> json" where
  "body_al_again = [''name'' \<mapsto> JString ''Bo'', ''email'' \<mapsto> JString ''a@B.co '',
                    ''password'' \<mapsto> JString ''abcdefgh'']"

definition access_al :: token where
  "access_al = Jwt ''A'' (Claims 0 (Some RUser) 5 905) 0"

definition refresh_al :: token where
  "refresh_al = Jwt ''B'' (Claims 0 None 5 604805) 0"

definition al :: user where
  "al = \<lparr>uid = 0, name = ''Al'', email = ''a@b.co'',
         password = Some (bcrypt_hash ''12345678'' 0), isEmailVerified = False,
         isActive = True, lastLogin = None, role = RUser, avatar = [], phone = [],
         refreshToken = Some refresh_al, createdAt = 5000, updatedAt = 5000\<rparr>"

definition st_al :: state where
  "st_al = \<lparr>users = [al], next_oid = 1, next_salt = 1\<rparr>"

definition resp_al :: response where
  "resp_al =
     \<lparr>status = 201,
      body = [(''success'', Atom (ABool True)),
              (''message'', Atom (AStr
                 ''Registration successful. Please check your email to verify your account.'')),
              (''user'', Obj [(''_id'', AId 0), (''name'', AStr ''Al''),
                             (''email'', AStr ''a@b.co''),
                             (''isEmailVerified'', ABool False), (''isActive'', ABool True),
                             (''role'', AStr ''user''), (''avatar'', AStr []),
                             (''phone'', AStr []), (''createdAt'', ADate 5000),
                             (''updatedAt'', ADate 5000), (''__v'', ANum 0)]),
              (''accessToken'', Atom (ATok access_al))],
      cookie_ops = setTokenCookies env0 access_al refresh_al\<rparr>"

text \<open>The same store with the account deactivated.\<close>

definition st_off :: state where
  "st_off = \<lparr>users = [al\<lparr>isActive := False\<rparr>], next_oid = 1, next_salt = 1\<rparr>"

definition login_al :: "string \<rightharpoonup> json" where
  "login_al = [''email'' \<mapsto> JString ''a@b.co'', ''password'' \<mapsto> JString ''12345678'']"

definition login_wrong :: "string \<rightharpoonup> json" where
  "login_wrong = [''email'' \<mapsto> JString ''a@b.co'', ''password'' \<mapsto> JString ''87654321'']"

definition login_unknown :: "string \<rightharpoonup> json" where
  "login_unknown = [''email'' \<mapsto> JString ''x@b.co'', ''password'' \<mapsto> JString ''12345678'']"

text \<open>Two login requests whose password is the JSON number 12345678, for the registered
  address and for an unknown one.\<close>

definition login_number :: "string \<rightharpoonup> json" where
  "login_number = [''email'' \<mapsto> JString ''a@b.co'', ''password'' \<mapsto> JNumber ''12345678'']"

definition login_number_unknown :: "string \<rightharpoonup> json" where
  "login_number_unknown =
     [''email'' \<mapsto> JString ''x@b.co'', ''password'' \<mapsto> JNumber ''12345678'']"

text \<open>A refresh token of the same user that an earlier session holds.\<close>

definition refresh_old :: token where
  "refresh_old = Jwt ''B'' (Claims 0 None 4 604804) 0"

section \<open>Auxiliary facts\<close>

subsection \<open>Strings\<close>

lemma dropWhile_rev_fixed:
  assumes "ys = [] \<or> \<not> P (hd ys)"
  shows "dropWhile P (rev (dropWhile P (rev ys))) = rev (dropWhile P (rev ys))"
proof (cases "dropWhile P (rev ys) = []")
  case True
  show ?thesis unfolding True by simp
next
  case False
  let ?zs = "dropWhile P (rev ys)"
  from False have ne: "ys \<noteq> []" by auto
  have "rev ys = takeWhile P (rev ys) @ ?zs" by simp
  then have "last (rev ys) = last ?zs" using False by (metis last_appendR)
  then have "hd ys = last ?zs" using ne by (simp add: last_rev)
  then have "\<not> P (hd (rev ?zs))" using assms ne False by (simp add: hd_rev)
  then show ?thesis using False by (cases "rev ?zs") auto
qed

lemma trim_trim: "trim (trim s) = trim s"
proof -
  let ?ys = "dropWhile is_space s"
  have h: "?ys = [] \<or> \<not> is_space (hd ?ys)" by (metis hd_dropWhile)
  show ?thesis
    unfolding trim_def using dropWhile_rev_fixed[of ?ys is_space, OF h] by simp
qed

lemma set_email_trim: "set_email (trim s) = lowercase (trim s)"
  by (simp add: set_email_def trim_trim)

subsection \<open>Tokens\<close>

lemma generateAuthTokens_Inr:
  assumes "generateAuthTokens e u now = Inr (accessToken, refreshTok)"
  shows "\<exists>a b. JWT_SECRET e = Some a \<and> REFRESH_TOKEN_SECRET e = Some b \<and> a \<noteq> [] \<and> b \<noteq> [] \<and>
           accessToken = Jwt a (Claims (uid u) (Some (role u)) (now div 1000) (now div 1000 + 900)) 0 \<and>
           refreshTok = Jwt b (Claims (uid u) None (now div 1000) (now div 1000 + 604800)) 0"
proof -
  from assms obtain a b where ab: "JWT_SECRET e = Some a" "REFRESH_TOKEN_SECRET e = Some b"
    by (cases "JWT_SECRET e"; cases "REFRESH_TOKEN_SECRET e") (auto simp: generateAuthTokens_def)
  with assms have ne: "a \<noteq> []" "b \<noteq> []"
    by (auto simp: generateAuthTokens_def split: if_splits)
  with assms ab show ?thesis
    by (auto simp: generateAuthTokens_def jwt_sign_def)
qed


subsection \<open>The store\<close>

lemma updateFields_users:
  "users (updateFields st i f now) =
     map (\<lambda>u. if uid u = i then (f u)\<lparr>updatedAt := now\<rparr> else u) (users st)"
  by (simp add: updateFields_def)

lemma updateFields_emails:
  assumes "\<And>u. email (f u) = email u"
  shows "map email (users (updateFields st i f now)) = map email (users st)"
  using assms by (simp add: updateFields_users o_def if_distrib cong: if_cong)

lemma findOne_email_None_iff:
  "findOne_email st em = None \<longleftrightarrow> set_email em \<notin> set (map email (users st))"
  by (force simp: findOne_email_def find_None_iff)

lemma count_email:
  "length (filter (\<lambda>u. email u = x) us) = length (filter (\<lambda>y. y = x) (map email us))"
  by (induction us) auto

lemma distinct_count_le_1:
  assumes "distinct xs"
  shows "length (filter (\<lambda>y. y = x) xs) \<le> 1"
  using assms by (induction xs) (auto simp: filter_empty_conv)

lemma save_new_cases:
  assumes "save_new st nm em pw now = (st1, x)"
  shows "(\<exists>ex. x = Inl ex \<and> users st1 = users st) \<or>
         (\<exists>u. x = Inr u \<and> set_email em \<notin> set (map email (users st)) \<and>
              map email (users st1) = map email (users st) @ [set_email em] \<and>
              next_salt st1 = Suc (next_salt st))"
  using assms by (auto simp: save_new_def Let_def split: if_splits option.splits)

subsection \<open>The handlers\<close>

lemma safe_user_object:
  assumes "(k, a) \<in> set (delete_key ''refreshToken'' (delete_key ''password'' (toObject u)))"
  shows "k \<noteq> ''password'' \<and> k \<noteq> ''refreshToken'' \<and> \<not> is_hash a \<and> (\<forall>t. a \<noteq> ATok t)"
  using assms by (auto simp: delete_key_def toObject_def split: option.splits)

lemma register_201:
  assumes "status (snd (register e isEmail st b now)) = 201"
  shows "\<exists>u accessToken refreshTok.
     generateAuthTokens e u now = Inr (accessToken, refreshTok) \<and>
     snd (register e isEmail st b now) =
       \<lparr>status = 201,
        body = [(''success'', Atom (ABool True)),
                (''message'', Atom (AStr
                   ''Registration successful. Please check your email to verify your account.'')),
                (''user'', Obj (delete_key ''refreshToken'' (delete_key ''password''
                     (toObject (u\<lparr>refreshToken := Some refreshTok, updatedAt := now\<rparr>))))),
                (''accessToken'', Atom (ATok accessToken))],
        cookie_ops = setTokenCookies e accessToken refreshTok\<rparr>"
  using assms
  by (auto simp: register_def Let_def validation_failed_def server_error_def
      split: if_splits option.splits sum.splits prod.splits)

lemma login_200:
  assumes "status (snd (login e isEmail st b now)) = 200"
  shows "\<exists>u accessToken refreshTok.
     generateAuthTokens e u now = Inr (accessToken, refreshTok) \<and>
     snd (login e isEmail st b now) =
       \<lparr>status = 200,
        body = [(''success'', Atom (ABool True)),
                (''message'', Atom (AStr ''Login successful'')),
                (''user'', Obj (delete_key ''refreshToken'' (delete_key ''password''
                     (toObject (u\<lparr>refreshToken := Some refreshTok\<rparr>))))),
                (''accessToken'', Atom (ATok accessToken))],
        cookie_ops = setTokenCookies e accessToken refreshTok\<rparr>"
  using assms
  by (auto simp: login_def Let_def validation_failed_def server_error_def
      split: if_splits option.splits sum.splits prod.splits)

lemma success_body_safe:
  assumes g: "generateAuthTokens e u now = Inr (accessToken, refreshTok)"
    and r: "r = \<lparr>status = n,
        body = [(''success'', Atom (ABool True)),
                (''message'', Atom (AStr m)),
                (''user'', Obj (delete_key ''refreshToken'' (delete_key ''password'' (toObject v)))),
                (''accessToken'', Atom (ATok accessToken))],
        cookie_ops = setTokenCookies e accessToken refreshTok\<rparr>"
  shows "\<exists>obj. user_object r = Some obj \<and>
          ''password'' \<notin> fst ` set obj \<and> ''refreshToken'' \<notin> fst ` set obj \<and>
          (\<forall>a \<in> set (body_atoms r). \<not> is_hash a) \<and>
          (\<exists>rt opts. SetCookie ''refreshToken'' rt opts \<in> set (cookie_ops r)) \<and>
          (\<forall>rt opts. SetCookie ''refreshToken'' rt opts \<in> set (cookie_ops r) \<longrightarrow>
             ATok rt \<notin> set (body_atoms r))"
proof -
  from generateAuthTokens_Inr[OF g] have ne: "accessToken \<noteq> refreshTok" by auto
  let ?obj = "delete_key ''refreshToken'' (delete_key ''password'' (toObject v))"
  have uo: "user_object r = Some ?obj" by (simp add: r user_object_def)
  have atoms: "set (body_atoms r) = {ABool True, AStr m, ATok accessToken} \<union> snd ` set ?obj"
    by (auto simp: r body_atoms_def)
  have ck: "\<And>rt opts. SetCookie ''refreshToken'' rt opts \<in> set (cookie_ops r) \<longleftrightarrow>
              rt = refreshTok \<and> opts = getCookieOptions e True"
    by (auto simp: r setTokenCookies_def)
  from safe_user_object[of _ _ v] uo atoms ck ne show ?thesis
    by (intro exI[of _ ?obj]) fastforce
qed


lemma register_201_store:
  assumes "register e isEmail st b now = (st1, r)" and "status r = 201"
  shows "findOne_email st (trim (field b ''email'')) = None \<and>
         map email (users st1) = map email (users st) @ [set_email (trim (field b ''email''))] \<and>
         next_salt st1 = Suc (next_salt st)"
proof -
  from assms have none: "findOne_email st (trim (field b ''email'')) = None"
    by (auto simp: register_def Let_def validation_failed_def server_error_def
        split: if_splits option.splits sum.splits prod.splits)
  from assms none obtain st' u rt where
    sv: "save_new st (trim (field b ''name'')) (trim (field b ''email'')) (b ''password'') now
           = (st', Inr u)"
    and st1: "st1 = updateFields st' (uid u) (\<lambda>v. v\<lparr>refreshToken := Some rt\<rparr>) now"
    by (auto simp: register_def Let_def validation_failed_def server_error_def
        split: if_splits option.splits sum.splits prod.splits)
  have "map email (users st1) = map email (users st')"
    unfolding st1 by (rule updateFields_emails) simp
  moreover have "next_salt st1 = next_salt st'" by (simp add: st1 updateFields_def)
  ultimately show ?thesis using save_new_cases[OF sv] none by simp
qed

lemma register_emails:
  "map email (users (fst (register e isEmail st b now))) = map email (users st) \<or>
   (set_email (trim (field b ''email'')) \<notin> set (map email (users st)) \<and>
    map email (users (fst (register e isEmail st b now))) =
      map email (users st) @ [set_email (trim (field b ''email''))])"
proof -
  let ?nm = "trim (field b ''name'')" and ?em = "trim (field b ''email'')"
  let ?pw = "b ''password''"
  obtain st1 x where sv: "save_new st ?nm ?em ?pw now = (st1, x)" by (cases "save_new st ?nm ?em ?pw now")
  have upd: "\<And>i t. map email (users (updateFields st1 i (\<lambda>v. v\<lparr>refreshToken := Some t\<rparr>) now))
               = map email (users st1)"
    by (rule updateFields_emails) simp
  have "map email (users (fst (register e isEmail st b now))) = map email (users st) \<or>
        map email (users (fst (register e isEmail st b now))) = map email (users st1)"
    using sv upd
    by (auto simp: register_def Let_def split: if_splits option.splits sum.splits prod.splits)
  with save_new_cases[OF sv] show ?thesis by auto
qed

lemma register_distinct:
  assumes "distinct (map email (users st))"
  shows "distinct (map email (users (fst (register e isEmail st b now))))"
  using register_emails[of e isEmail st b now] assms by auto

subsection \<open>The worked configuration, evaluated\<close>

lemma trim_examples:
  "trim '' A@b.co'' = ''A@b.co''" "trim ''A@b.co'' = ''A@b.co''"
  "trim ''a@B.co '' = ''a@B.co''" "trim ''a@B.co'' = ''a@B.co''"
  "trim ''a@b.co'' = ''a@b.co''" "trim ''x@b.co'' = ''x@b.co''"
  "trim ''Al'' = ''Al''" "trim ''Bo'' = ''Bo''"
  by (simp_all add: trim_def is_space_def)

lemma lowercase_examples:
  "lowercase ''A@b.co'' = ''a@b.co''" "lowercase ''a@B.co'' = ''a@b.co''"
  "lowercase ''a@b.co'' = ''a@b.co''" "lowercase ''x@b.co'' = ''x@b.co''"
  by (simp_all add: lowercase_def lower_char_def)

lemma match_email_shape:
  assumes "\<not> is_space a" "\<not> is_space b" "\<not> is_space c" "\<not> is_space d"
  shows "match_email [a, CHR ''@'', b, CHR ''.'', c, d]"
proof -
  let ?s = "[a, CHR ''@'', b, CHR ''.'', c, d]"
  have "\<forall>x \<in> set ?s. \<not> is_space x"
    using assms by (simp add: is_space_def)
  moreover have "\<exists>i \<in> {..<length ?s}. \<exists>j \<in> {..<length ?s}.
      ?s ! i = CHR ''@'' \<and> ?s ! j = CHR ''.'' \<and> 1 \<le> i \<and> i + 2 \<le> j \<and> j + 2 \<le> length ?s"
    by (rule bexI[of _ 1], rule bexI[of _ 3]) simp_all
  ultimately show ?thesis unfolding match_email_def by blast
qed

lemma match_email_examples:
  "match_email ''A@b.co''" "match_email ''a@B.co''" "match_email ''a@b.co''"
  "match_email ''x@b.co''"
  by (rule match_email_shape; simp add: is_space_def)+

lemma register_errors_examples:
  "register_errors match_email body_al = []" "register_errors match_email body_al_again = []"
  by (simp_all add: register_errors_def body_al_def body_al_again_def field_def trim_examples
      match_email_examples)

lemma login_errors_examples:
  "login_errors match_email login_al = []" "login_errors match_email login_wrong = []"
  "login_errors match_email login_unknown = []"
  by (simp_all add: login_errors_def login_al_def login_wrong_def login_unknown_def field_def
      match_email_examples)

lemma register_al: "register env0 match_email st0 body_al 5000 = (st_al, resp_al)"
  by (simp add: register_def register_errors_examples Let_def)
     (simp add: body_al_def field_def trim_examples findOne_email_def st0_def
       save_new_def validate_new_def set_email_def lowercase_examples match_email_examples
       generateVerificationToken_def jwt_sign_def env0_def
       generateAuthTokens_def updateFields_def st_al_def al_def bcrypt_hash_def Let_def
       resp_al_def access_al_def refresh_al_def toObject_def delete_key_def)

lemma findOne_email_al:
  "findOne_email st_al ''a@b.co'' = Some al" "findOne_email st_al ''x@b.co'' = None"
  "findOne_email st_off ''a@b.co'' = Some (al\<lparr>isActive := False\<rparr>)"
  by (simp_all add: findOne_email_def st_al_def st_off_def set_email_def trim_examples
      lowercase_examples al_def)

lemma bcrypt_key_Cons:
  "bcrypt_key (x # xs) = x # take 71 (xs @ CHR 0x00 # concat (replicate 71 (x # xs @ [CHR 0x00])))"
proof -
  have "replicate 72 (x # xs @ [CHR 0x00])
          = (x # xs @ [CHR 0x00]) # replicate 71 (x # xs @ [CHR 0x00])"
    by (simp add: numeral_eq_Suc)
  then show ?thesis by (simp add: bcrypt_key_def)
qed

lemma comparePassword_al:
  "comparePassword (select_plus_password al) (Some (JString ''12345678'')) = Inr True"
  "comparePassword (select_plus_password al) (Some (JString ''87654321'')) = Inr False"
  "comparePassword (select_plus_password (al\<lparr>isActive := False\<rparr>)) (Some (JString ''12345678''))
     = Inr True"
  "comparePassword (select_plus_password (al\<lparr>isActive := False\<rparr>)) (Some (JString ''87654321''))
     = Inr False"
  "comparePassword (select_plus_password al) (Some (JNumber ''12345678''))
     = Inl (Error ''Error comparing passwords'')"
  by (simp_all add: comparePassword_def select_plus_password_def al_def bcrypt_hash_def
      bcrypt_key_Cons)

lemma refresh_al_verifies:
  "jwt_verify refresh_al (REFRESH_TOKEN_SECRET env0) 9000 = Inr (Claims 0 None 5 604805)"
  "jwt_verify refresh_old (REFRESH_TOKEN_SECRET env0) 9000 = Inr (Claims 0 None 4 604804)"
  "jwt_verify (Raw ''garbage'') (REFRESH_TOKEN_SECRET env0) 9000
     = Inl (JsonWebTokenError ''jwt malformed'')"
  "jwt_verify refresh_al (REFRESH_TOKEN_SECRET env0) 604805000 = Inl TokenExpiredError"
  "jwt_verify refresh_al (REFRESH_TOKEN_SECRET env0) 12000 = Inr (Claims 0 None 5 604805)"
  by (simp_all add: refresh_al_def refresh_old_def env0_def)

lemma findOne_id_refreshToken_al:
  "findOne_id_refreshToken st_al 0 refresh_al = Some al"
  "findOne_id_refreshToken st_al 0 refresh_old = None"
  by (simp_all add: findOne_id_refreshToken_def st_al_def al_def refresh_al_def refresh_old_def)

lemma truthy_examples:
  "truthy refresh_al" "truthy refresh_old" "truthy access_al" "truthy (Raw ''garbage'')"
  "\<not> truthy (Raw [])"
  by (simp_all add: refresh_al_def refresh_old_def access_al_def)

lemma generateAuthTokens_al_9000:
  "generateAuthTokens env0 (select_default al) 9000
     = Inr (Jwt ''A'' (Claims 0 (Some RUser) 9 909) 0, Jwt ''B'' (Claims 0 None 9 604809) 0)"
  by (simp add: generateAuthTokens_def env0_def jwt_sign_def al_def select_default_def)

lemma access_cookie_single:
  "truthy t \<Longrightarrow> access_cookie [''accessToken'' \<mapsto> t] = Some t"
  "access_cookie [''token'' \<mapsto> t] = Some t"
  by (simp_all add: access_cookie_def)

lemma access_al_verifies:
  "jwt_verify access_al (JWT_SECRET env0) 9000 = Inr (Claims 0 (Some RUser) 5 905)"
  "jwt_verify (Jwt ''A'' (Claims 7 (Some RUser) 5 905) 0) (JWT_SECRET env0) 9000
     = Inr (Claims 7 (Some RUser) 5 905)"
  "verifyAccessToken env0 access_al 9000 = Inr (Claims 0 (Some RUser) 5 905)"
  by (simp_all add: access_al_def env0_def verifyAccessToken_def)

lemma findById_al: "findById st_al 0 = Some al" "findById st_al 7 = None"
  by (simp_all add: findById_def st_al_def al_def)

lemma login_al_200: "status (snd (login env0 match_email st_al login_al 9000)) = 200"
  by (simp add: login_def login_errors_examples Let_def)
     (simp add: login_al_def field_def findOne_email_al comparePassword_def bcrypt_hash_def
        select_plus_password_def al_def generateAuthTokens_def env0_def jwt_sign_def)

lemma cookie_single:
  "cookie [k \<mapsto> t] k = (if truthy t then Some t else None)"
  "k' \<noteq> k \<Longrightarrow> cookie [k \<mapsto> t] k' = None"
  "cookie Map.empty k = None"
  by (simp_all add: cookie_def)

subsection \<open>Rotation\<close>





section \<open>Refresh-token rotation\<close>




section \<open>Responses of the refresh endpoint\<close>

text \<open>
  C2. As stated, every invalid or expired refresh token is answered with status 403. The
  handler answers a token that fails \<open>jwt.verify\<close> from its \<open>catch\<close> block, with
  status 401: a malformed cookie value and an expired token of the stored session both
  get 401 here.
\<close>

theorem refresh_verification_failure_is_401:
  "jwt_verify (Raw ''garbage'') (REFRESH_TOKEN_SECRET env0) 9000
     = Inl (JsonWebTokenError ''jwt malformed'') \<and>
   status (snd (refresh_token env0 st_al [''refreshToken'' \<mapsto> Raw ''garbage''] 9000)) = 401 \<and>
   status (snd (refresh_token env0 st_al [''refreshToken'' \<mapsto> Raw ''garbage''] 9000)) \<noteq> 403 \<and>
   jwt_verify refresh_al (REFRESH_TOKEN_SECRET env0) 604805000 = Inl TokenExpiredError \<and>
   status (snd (refresh_token env0 st_al [''refreshToken'' \<mapsto> refresh_al] 604805000)) = 401 \<and>
   status (snd (refresh_token env0 st_al [''refreshToken'' \<mapsto> refresh_al] 604805000)) \<noteq> 403"
  by (simp add: refresh_token_def cookie_single truthy_examples refresh_al_verifies
      refresh_catch_def)

text \<open>
  C2, as the handler has it. With no refresh-token cookie, or an empty one, the answer is
  401 \<open>No refresh token provided\<close>. A token that fails verification (malformed, bad
  signature, elapsed expiry) is answered with 401 \<open>Invalid or expired refresh token\<close>
  and the three cookies are cleared. A token that verifies but matches no stored value is
  answered with 403 \<open>Invalid refresh token\<close>. All three carry \<open>shouldLogout\<close>. When
  the token matches and new tokens are issued, the answer is 200 with a body of the
  success flag and the new access token only, and the new cookies are set.
\<close>

theorem refresh_responses:
  "(cookie c ''refreshToken'' = None \<longrightarrow>
      snd (refresh_token e st c now) =
        \<lparr>status = 401,
         body = [(''success'', Atom (ABool False)),
                 (''message'', Atom (AStr ''No refresh token provided'')),
                 (''shouldLogout'', Atom (ABool True))],
         cookie_ops = []\<rparr>) \<and>
   (\<forall>t x. cookie c ''refreshToken'' = Some t \<and>
           jwt_verify t (REFRESH_TOKEN_SECRET e) now = Inl x \<longrightarrow>
      snd (refresh_token e st c now) =
        \<lparr>status = 401,
         body = [(''success'', Atom (ABool False)),
                 (''message'', Atom (AStr ''Invalid or expired refresh token'')),
                 (''shouldLogout'', Atom (ABool True))],
         cookie_ops = clearAll e\<rparr>) \<and>
   (\<forall>t d. cookie c ''refreshToken'' = Some t \<and>
           jwt_verify t (REFRESH_TOKEN_SECRET e) now = Inr d \<and>
           findOne_id_refreshToken st (c_id d) t = None \<longrightarrow>
      snd (refresh_token e st c now) =
        \<lparr>status = 403,
         body = [(''success'', Atom (ABool False)),
                 (''message'', Atom (AStr ''Invalid refresh token'')),
                 (''shouldLogout'', Atom (ABool True))],
         cookie_ops = []\<rparr>) \<and>
   (\<forall>t d u newAccessToken newRefreshToken.
       cookie c ''refreshToken'' = Some t \<and>
       jwt_verify t (REFRESH_TOKEN_SECRET e) now = Inr d \<and>
       findOne_id_refreshToken st (c_id d) t = Some u \<and>
       generateAuthTokens e (select_default u) now = Inr (newAccessToken, newRefreshToken) \<longrightarrow>
      snd (refresh_token e st c now) =
        \<lparr>status = 200,
         body = [(''success'', Atom (ABool True)),
                 (''accessToken'', Atom (ATok newAccessToken))],
         cookie_ops = setTokenCookies e newAccessToken newRefreshToken\<rparr>)"
  by (simp add: refresh_token_def refresh_catch_def)

text \<open>The four cases on the worked store: no cookie, a malformed value, the token of an
  earlier session, and the stored token.\<close>

theorem refresh_responses_witness:
  "cookie Map.empty ''refreshToken'' = None \<and>
   status (snd (refresh_token env0 st_al Map.empty 9000)) = 401 \<and>
   cookie_ops (snd (refresh_token env0 st_al Map.empty 9000)) = [] \<and>
   cookie [''refreshToken'' \<mapsto> Raw ''garbage''] ''refreshToken'' = Some (Raw ''garbage'') \<and>
   jwt_verify (Raw ''garbage'') (REFRESH_TOKEN_SECRET env0) 9000
     = Inl (JsonWebTokenError ''jwt malformed'') \<and>
   status (snd (refresh_token env0 st_al [''refreshToken'' \<mapsto> Raw ''garbage''] 9000)) = 401 \<and>
   cookie_ops (snd (refresh_token env0 st_al [''refreshToken'' \<mapsto> Raw ''garbage''] 9000))
     = clearAll env0 \<and>
   cookie [''refreshToken'' \<mapsto> refresh_old] ''refreshToken'' = Some refresh_old \<and>
   jwt_verify refresh_old (REFRESH_TOKEN_SECRET env0) 9000 = Inr (Claims 0 None 4 604804) \<and>
   findOne_id_refreshToken st_al (c_id (Claims 0 None 4 604804)) refresh_old = None \<and>
   status (snd (refresh_token env0 st_al [''refreshToken'' \<mapsto> refresh_old] 9000)) = 403 \<and>
   cookie [''refreshToken'' \<mapsto> refresh_al] ''refreshToken'' = Some refresh_al \<and>
   jwt_verify refresh_al (REFRESH_TOKEN_SECRET env0) 9000 = Inr (Claims 0 None 5 604805) \<and>
   findOne_id_refreshToken st_al (c_id (Claims 0 None 5 604805)) refresh_al = Some al \<and>
   generateAuthTokens env0 (select_default al) 9000
     = Inr (Jwt ''A'' (Claims 0 (Some RUser) 9 909) 0, Jwt ''B'' (Claims 0 None 9 604809) 0) \<and>
   snd (refresh_token env0 st_al [''refreshToken'' \<mapsto> refresh_al] 9000) =
     \<lparr>status = 200,
      body = [(''success'', Atom (ABool True)),
              (''accessToken'', Atom (ATok (Jwt ''A'' (Claims 0 (Some RUser) 9 909) 0)))],
      cookie_ops = setTokenCookies env0 (Jwt ''A'' (Claims 0 (Some RUser) 9 909) 0)
                     (Jwt ''B'' (Claims 0 None 9 604809) 0)\<rparr>"
proof -
  note main = refresh_responses
  have h1: "cookie Map.empty ''refreshToken'' = None"
    by (simp add: cookie_single)
  have h2: "cookie [''refreshToken'' \<mapsto> Raw ''garbage''] ''refreshToken'' = Some (Raw ''garbage'') \<and>
      jwt_verify (Raw ''garbage'') (REFRESH_TOKEN_SECRET env0) 9000
        = Inl (JsonWebTokenError ''jwt malformed'')"
    by (simp add: cookie_single refresh_al_verifies)
  have h3: "cookie [''refreshToken'' \<mapsto> refresh_old] ''refreshToken'' = Some refresh_old \<and>
      jwt_verify refresh_old (REFRESH_TOKEN_SECRET env0) 9000 = Inr (Claims 0 None 4 604804) \<and>
      findOne_id_refreshToken st_al (c_id (Claims 0 None 4 604804)) refresh_old = None"
    by (simp add: cookie_single truthy_examples refresh_al_verifies findOne_id_refreshToken_al)
  have h4: "cookie [''refreshToken'' \<mapsto> refresh_al] ''refreshToken'' = Some refresh_al \<and>
      jwt_verify refresh_al (REFRESH_TOKEN_SECRET env0) 9000 = Inr (Claims 0 None 5 604805) \<and>
      findOne_id_refreshToken st_al (c_id (Claims 0 None 5 604805)) refresh_al = Some al \<and>
      generateAuthTokens env0 (select_default al) 9000
        = Inr (Jwt ''A'' (Claims 0 (Some RUser) 9 909) 0, Jwt ''B'' (Claims 0 None 9 604809) 0)"
    by (simp add: cookie_single truthy_examples refresh_al_verifies findOne_id_refreshToken_al
        generateAuthTokens_al_9000)
  from main[where c = Map.empty and e = env0 and st = st_al and now = 9000, THEN conjunct1, rule_format, OF h1]
  have r1: "status (snd (refresh_token env0 st_al Map.empty 9000)) = 401 \<and>
            cookie_ops (snd (refresh_token env0 st_al Map.empty 9000)) = []"
    by simp
  from main[where c = "[''refreshToken'' \<mapsto> Raw ''garbage'']" and e = env0 and st = st_al
        and now = 9000,
      THEN conjunct2, THEN conjunct1, rule_format, OF h2]
  have r2: "status (snd (refresh_token env0 st_al [''refreshToken'' \<mapsto> Raw ''garbage''] 9000)) = 401 \<and>
      cookie_ops (snd (refresh_token env0 st_al [''refreshToken'' \<mapsto> Raw ''garbage''] 9000))
        = clearAll env0"
    by simp
  from main[where c = "[''refreshToken'' \<mapsto> refresh_old]" and e = env0 and st = st_al
        and now = 9000,
      THEN conjunct2, THEN conjunct2, THEN conjunct1, rule_format, OF h3]
  have r3: "status (snd (refresh_token env0 st_al [''refreshToken'' \<mapsto> refresh_old] 9000)) = 403"
    by simp
  note r4 = main[where c = "[''refreshToken'' \<mapsto> refresh_al]" and e = env0 and st = st_al
        and now = 9000,
      THEN conjunct2, THEN conjunct2, THEN conjunct2, rule_format, OF h4]
  from h1 h2 h3 h4 r1 r2 r3 r4 show ?thesis by blast
qed

section \<open>Login failures\<close>

text \<open>
  C3. The failure response for an email that matches no record and the failure response
  for an email that matches a record whose password check fails are to be the same. The
  login chain only asks that the password exists, so a request can carry a password that
  is not a string, here the JSON number 12345678. For the registered address the password
  check then throws and the handler answers 500 \<open>Server error during login\<close>; for an
  unknown address the same request is answered 401 \<open>Invalid credentials\<close>. The two
  responses tell a registered address from an unknown one.
\<close>

theorem login_nonstring_password_tells_apart:
  "login_errors match_email login_number = [] \<and>
   login_errors match_email login_number_unknown = [] \<and>
   findOne_email st_al (field login_number ''email'') = Some al \<and>
   findOne_email st_al (field login_number_unknown ''email'') = None \<and>
   login env0 match_email st_al login_number 9000 =
     (st_al, \<lparr>status = 500,
              body = [(''success'', Atom (ABool False)),
                      (''message'', Atom (AStr ''Server error during login''))],
              cookie_ops = []\<rparr>) \<and>
   login env0 match_email st_al login_number_unknown 9000 =
     (st_al, \<lparr>status = 401,
              body = [(''success'', Atom (ABool False)),
                      (''message'', Atom (AStr ''Invalid credentials''))],
              cookie_ops = []\<rparr>)"
proof -
  have e1: "login_errors match_email login_number = []"
    and e2: "login_errors match_email login_number_unknown = []"
    by (simp_all add: login_errors_def login_number_def login_number_unknown_def field_def
        match_email_examples)
  have f1: "findOne_email st_al (field login_number ''email'') = Some al"
    and f2: "findOne_email st_al (field login_number_unknown ''email'') = None"
    by (simp_all add: login_number_def login_number_unknown_def field_def findOne_email_al)
  have p: "comparePassword (select_plus_password al) (login_number ''password'')
      = Inl (Error ''Error comparing passwords'')"
    by (simp add: login_number_def comparePassword_al)
  have r1: "login env0 match_email st_al login_number 9000 =
     (st_al, \<lparr>status = 500,
              body = [(''success'', Atom (ABool False)),
                      (''message'', Atom (AStr ''Server error during login''))],
              cookie_ops = []\<rparr>)"
    by (simp add: login_def e1 f1 p Let_def server_error_def) (simp add: env0_def)
  have r2: "login env0 match_email st_al login_number_unknown 9000 =
     (st_al, \<lparr>status = 401,
              body = [(''success'', Atom (ABool False)),
                      (''message'', Atom (AStr ''Invalid credentials''))],
              cookie_ops = []\<rparr>)"
    by (simp add: login_def e2 f2 Let_def)
  show ?thesis
    by (intro conjI) (rule e1 e2 f1 f2 r1 r2)+
qed

text \<open>The two responses of that pair of requests differ in status and in body.\<close>

theorem login_nonstring_password_tells_apart_witness:
  "status (snd (login env0 match_email st_al login_number 9000)) = 500 \<and>
   status (snd (login env0 match_email st_al login_number_unknown 9000)) = 401 \<and>
   snd (login env0 match_email st_al login_number 9000)
     \<noteq> snd (login env0 match_email st_al login_number_unknown 9000)"
proof -
  note main = login_nonstring_password_tells_apart
  note r1 = main[THEN conjunct2, THEN conjunct2, THEN conjunct2, THEN conjunct2, THEN conjunct1]
  note r2 = main[THEN conjunct2, THEN conjunct2, THEN conjunct2, THEN conjunct2, THEN conjunct2]
  show ?thesis unfolding r1 r2 by simp
qed

text \<open>When the password check returns false, as it does for every string that does not
  match, the two failure responses coincide: status 401, \<open>Invalid credentials\<close>, no
  cookie.\<close>

lemma login_invalid_credentials_merged:
  assumes "login_errors isEmail b1 = []" and "login_errors isEmail b2 = []"
    and "findOne_email st1 (field b1 ''email'') = None"
    and "findOne_email st2 (field b2 ''email'') = Some u"
    and "comparePassword (select_plus_password u) (b2 ''password'') = Inr False"
  shows "snd (login e isEmail st1 b1 now1) = snd (login e isEmail st2 b2 now2) \<and>
         snd (login e isEmail st1 b1 now1) =
           \<lparr>status = 401,
            body = [(''success'', Atom (ABool False)),
                    (''message'', Atom (AStr ''Invalid credentials''))],
            cookie_ops = []\<rparr>"
  using assms by (simp add: login_def Let_def)



section \<open>Failure signals of the request authenticator\<close>

text \<open>
  C4. For the access token the authenticator reads: a token signed with the configured
  secret whose expiry has elapsed is answered with \<open>shouldRefresh\<close> true and
  \<open>shouldLogout\<close> false; a malformed value or a token not signed with the configured
  secret is answered with \<open>shouldRefresh\<close> false and \<open>shouldLogout\<close> true; a token
  that verifies but whose subject resolves to no record gets the same answer as an
  invalid one.
\<close>

theorem protect_failure_signals:
  assumes "access_cookie c = Some t" and "truthy t"
  shows
   "(\<forall>k cl n. t = Jwt k cl n \<and> k \<noteq> [] \<and> JWT_SECRET e = Some k \<and> c_exp cl \<le> now div 1000 \<longrightarrow>
       protect e st c now =
         Respond \<lparr>status = 401,
                  body = [(''success'', Atom (ABool False)),
                          (''message'', Atom (AStr ''Access token expired'')),
                          (''shouldRefresh'', Atom (ABool True)),
                          (''shouldLogout'', Atom (ABool False))],
                  cookie_ops = []\<rparr>) \<and>
    ((\<exists>s. t = Raw s) \<or> (\<exists>k cl n. t = Jwt k cl n \<and> JWT_SECRET e \<noteq> Some k) \<longrightarrow>
       protect e st c now =
         Respond \<lparr>status = 401,
                  body = [(''success'', Atom (ABool False)),
                          (''message'', Atom (AStr ''Invalid access token'')),
                          (''shouldRefresh'', Atom (ABool False)),
                          (''shouldLogout'', Atom (ABool True))],
                  cookie_ops = []\<rparr>) \<and>
    (\<forall>d. jwt_verify t (JWT_SECRET e) now = Inr d \<and> findById st (c_id d) = None \<longrightarrow>
       protect e st c now =
         Respond \<lparr>status = 401,
                  body = [(''success'', Atom (ABool False)),
                          (''message'', Atom (AStr ''Invalid access token'')),
                          (''shouldRefresh'', Atom (ABool False)),
                          (''shouldLogout'', Atom (ABool True))],
                  cookie_ops = []\<rparr>)"
proof (intro conjI allI impI)
  fix k cl n
  assume "t = Jwt k cl n \<and> k \<noteq> [] \<and> JWT_SECRET e = Some k \<and> c_exp cl \<le> now div 1000"
  with assms show "protect e st c now =
         Respond \<lparr>status = 401,
                  body = [(''success'', Atom (ABool False)),
                          (''message'', Atom (AStr ''Access token expired'')),
                          (''shouldRefresh'', Atom (ABool True)),
                          (''shouldLogout'', Atom (ABool False))],
                  cookie_ops = []\<rparr>"
    by (simp add: protect_def verifyAccessToken_def TokenExpiredError_def Error_def)
next
  assume "(\<exists>s. t = Raw s) \<or> (\<exists>k cl n. t = Jwt k cl n \<and> JWT_SECRET e \<noteq> Some k)"
  with assms show "protect e st c now =
         Respond \<lparr>status = 401,
                  body = [(''success'', Atom (ABool False)),
                          (''message'', Atom (AStr ''Invalid access token'')),
                          (''shouldRefresh'', Atom (ABool False)),
                          (''shouldLogout'', Atom (ABool True))],
                  cookie_ops = []\<rparr>"
    by (auto simp: protect_def verifyAccessToken_def JsonWebTokenError_def Error_def)
next
  fix d
  assume "jwt_verify t (JWT_SECRET e) now = Inr d \<and> findById st (c_id d) = None"
  with assms show "protect e st c now =
         Respond \<lparr>status = 401,
                  body = [(''success'', Atom (ABool False)),
                          (''message'', Atom (AStr ''Invalid access token'')),
                          (''shouldRefresh'', Atom (ABool False)),
                          (''shouldLogout'', Atom (ABool True))],
                  cookie_ops = []\<rparr>"
    by (cases t) (auto simp: protect_def verifyAccessToken_def Error_def split: if_splits)
qed

text \<open>An expired token of the registered user, a malformed cookie value, and a valid
  token whose subject has no record.\<close>

theorem protect_failure_signals_witness:
  "access_cookie [''accessToken'' \<mapsto> access_al] = Some access_al \<and> truthy access_al \<and>
   access_al = Jwt ''A'' (Claims 0 (Some RUser) 5 905) 0 \<and> JWT_SECRET env0 = Some ''A'' \<and>
   c_exp (Claims 0 (Some RUser) 5 905) \<le> 905000 div 1000 \<and>
   protect env0 st_al [''accessToken'' \<mapsto> access_al] 905000 =
     Respond \<lparr>status = 401,
              body = [(''success'', Atom (ABool False)),
                      (''message'', Atom (AStr ''Access token expired'')),
                      (''shouldRefresh'', Atom (ABool True)),
                      (''shouldLogout'', Atom (ABool False))],
              cookie_ops = []\<rparr> \<and>
   access_cookie [''accessToken'' \<mapsto> Raw ''garbage''] = Some (Raw ''garbage'') \<and>
   truthy (Raw ''garbage'') \<and>
   protect env0 st_al [''accessToken'' \<mapsto> Raw ''garbage''] 9000 =
     Respond \<lparr>status = 401,
              body = [(''success'', Atom (ABool False)),
                      (''message'', Atom (AStr ''Invalid access token'')),
                      (''shouldRefresh'', Atom (ABool False)),
                      (''shouldLogout'', Atom (ABool True))],
              cookie_ops = []\<rparr> \<and>
   access_cookie [''accessToken'' \<mapsto> Jwt ''A'' (Claims 7 (Some RUser) 5 905) 0]
     = Some (Jwt ''A'' (Claims 7 (Some RUser) 5 905) 0) \<and>
   jwt_verify (Jwt ''A'' (Claims 7 (Some RUser) 5 905) 0) (JWT_SECRET env0) 9000
     = Inr (Claims 7 (Some RUser) 5 905) \<and>
   findById st_al (c_id (Claims 7 (Some RUser) 5 905)) = None \<and>
   protect env0 st_al [''accessToken'' \<mapsto> Jwt ''A'' (Claims 7 (Some RUser) 5 905) 0] 9000 =
     Respond \<lparr>status = 401,
              body = [(''success'', Atom (ABool False)),
                      (''message'', Atom (AStr ''Invalid access token'')),
                      (''shouldRefresh'', Atom (ABool False)),
                      (''shouldLogout'', Atom (ABool True))],
              cookie_ops = []\<rparr>"
proof -
  note main = protect_failure_signals
  have a1: "access_cookie [''accessToken'' \<mapsto> access_al] = Some access_al"
    and a2: "truthy access_al"
    by (simp_all add: access_cookie_single truthy_examples)
  have a3: "access_al = Jwt ''A'' (Claims 0 (Some RUser) 5 905) 0 \<and> ''A'' \<noteq> [] \<and>
      JWT_SECRET env0 = Some ''A'' \<and> c_exp (Claims 0 (Some RUser) 5 905) \<le> 905000 div 1000"
    by (simp add: access_al_def env0_def)
  note r1 = main[OF a1 a2, where e = env0 and now = 905000 and st = st_al, THEN conjunct1,
      rule_format, OF a3]
  have b1: "access_cookie [''accessToken'' \<mapsto> Raw ''garbage''] = Some (Raw ''garbage'')"
    and b2: "truthy (Raw ''garbage'')"
    by (simp_all add: access_cookie_single)
  have b3: "(\<exists>s. Raw ''garbage'' = Raw s) \<or>
      (\<exists>k cl n. Raw ''garbage'' = Jwt k cl n \<and> JWT_SECRET env0 \<noteq> Some k)"
    by simp
  note r2 = main[OF b1 b2, where e = env0 and now = 9000 and st = st_al, THEN conjunct2,
      THEN conjunct1, rule_format, OF b3]
  have c1: "access_cookie [''accessToken'' \<mapsto> Jwt ''A'' (Claims 7 (Some RUser) 5 905) 0]
      = Some (Jwt ''A'' (Claims 7 (Some RUser) 5 905) 0)"
    and c2: "truthy (Jwt ''A'' (Claims 7 (Some RUser) 5 905) 0)"
    by (simp_all add: access_cookie_single)
  have c3: "jwt_verify (Jwt ''A'' (Claims 7 (Some RUser) 5 905) 0) (JWT_SECRET env0) 9000
        = Inr (Claims 7 (Some RUser) 5 905) \<and>
      findById st_al (c_id (Claims 7 (Some RUser) 5 905)) = None"
    by (rule conjI[OF access_al_verifies(2)]) (simp add: findById_al)
  note r3 = main[OF c1 c2, where e = env0 and now = 9000 and st = st_al, THEN conjunct2,
      THEN conjunct2, rule_format, OF c3]
  note a3' = a3[THEN conjunct1] a3[THEN conjunct2, THEN conjunct2, THEN conjunct1]
    a3[THEN conjunct2, THEN conjunct2, THEN conjunct2]
  note c3' = c3[THEN conjunct1] c3[THEN conjunct2]
  show ?thesis
    by (intro conjI) (rule a1 a2 a3' b1 b2 c1 c3' r1 r2 r3)+
qed

section \<open>The legacy cookie\<close>

text \<open>
  C10. As stated, a legacy \<open>token\<close> cookie that is present is used whenever the
  \<open>accessToken\<close> cookie is absent, and \<open>No access token provided\<close> is answered only
  when both are absent. A legacy cookie that is present with an empty value is not used:
  the request is answered with \<open>No access token provided\<close>.
\<close>

theorem protect_empty_legacy_cookie:
  "[''token'' \<mapsto> Raw []] ''accessToken'' = None \<and>
   [''token'' \<mapsto> Raw []] ''token'' = Some (Raw []) \<and>
   protect env0 st_al [''token'' \<mapsto> Raw []] 9000 =
     Respond \<lparr>status = 401,
              body = [(''success'', Atom (ABool False)),
                      (''message'', Atom (AStr ''No access token provided'')),
                      (''shouldRefresh'', Atom (ABool True))],
              cookie_ops = []\<rparr>"
  by (simp add: protect_def access_cookie_def)

text \<open>
  C10, as the middleware has it. When the \<open>accessToken\<close> cookie is absent or empty and
  the legacy \<open>token\<close> cookie has a non-empty value, the authenticator treats that value
  as the access token: it answers as it would had the value been sent as \<open>accessToken\<close>,
  attaches the resolved user when the value verifies and its subject has a record, and
  does not answer \<open>No access token provided\<close>. That answer is given exactly when each
  of the two cookies is absent or empty.
\<close>

theorem protect_legacy_cookie:
  "(\<forall>t. cookie c ''accessToken'' = None \<and> cookie c ''token'' = Some t \<longrightarrow>
       protect e st c now = protect e st [''accessToken'' \<mapsto> t] now \<and>
       (\<forall>d u. verifyAccessToken e t now = Inr d \<and> findById st (c_id d) = Some u \<longrightarrow>
          protect e st c now = Next (select_default u)) \<and>
       protect e st c now \<noteq>
         Respond \<lparr>status = 401,
                  body = [(''success'', Atom (ABool False)),
                          (''message'', Atom (AStr ''No access token provided'')),
                          (''shouldRefresh'', Atom (ABool True))],
                  cookie_ops = []\<rparr>) \<and>
   (protect e st c now =
      Respond \<lparr>status = 401,
               body = [(''success'', Atom (ABool False)),
                       (''message'', Atom (AStr ''No access token provided'')),
                       (''shouldRefresh'', Atom (ABool True))],
               cookie_ops = []\<rparr>
    \<longleftrightarrow> cookie c ''accessToken'' = None \<and> cookie c ''token'' = None)"
  by (auto simp: protect_def access_cookie_def cookie_def Let_def
      split: option.splits sum.splits if_splits)

text \<open>A request that carries the access token of the registered user in the legacy
  cookie only.\<close>

theorem protect_legacy_cookie_witness:
  "cookie [''token'' \<mapsto> access_al] ''accessToken'' = None \<and>
   cookie [''token'' \<mapsto> access_al] ''token'' = Some access_al \<and>
   verifyAccessToken env0 access_al 9000 = Inr (Claims 0 (Some RUser) 5 905) \<and>
   findById st_al (c_id (Claims 0 (Some RUser) 5 905)) = Some al \<and>
   protect env0 st_al [''token'' \<mapsto> access_al] 9000 = Next (select_default al) \<and>
   protect env0 st_al [''token'' \<mapsto> access_al] 9000
     = protect env0 st_al [''accessToken'' \<mapsto> access_al] 9000"
proof -
  have h: "cookie [''token'' \<mapsto> access_al] ''accessToken'' = None \<and>
      cookie [''token'' \<mapsto> access_al] ''token'' = Some access_al"
    by (simp add: cookie_single truthy_examples)
  have v: "verifyAccessToken env0 access_al 9000 = Inr (Claims 0 (Some RUser) 5 905) \<and>
      findById st_al (c_id (Claims 0 (Some RUser) 5 905)) = Some al"
    by (simp add: access_al_verifies findById_al)
  note r = protect_legacy_cookie[where c = "[''token'' \<mapsto> access_al]" and e = env0
      and st = st_al and now = 9000, THEN conjunct1, rule_format, OF h]
  note r1 = r[THEN conjunct1]
  note r2 = r[THEN conjunct2, THEN conjunct1, rule_format, OF v]
  from h v r1 r2 show ?thesis by blast
qed

section \<open>Logout\<close>

text \<open>
  C5. Whatever cookies a logout request carries, the response is status 200 with the
  success body, and it clears the cookies \<open>accessToken\<close>, \<open>refreshToken\<close> and
  \<open>token\<close>. When the refresh-token cookie does not verify (malformed, bad signature,
  expired) the failure is swallowed and the store is left as it was; so it is when the
  cookie is absent.
\<close>

theorem logout_always_succeeds:
  "status (snd (logout e st c now)) = 200 \<and>
   body (snd (logout e st c now)) =
     [(''success'', Atom (ABool True)), (''message'', Atom (AStr ''Logout successful''))] \<and>
   map cleared (cookie_ops (snd (logout e st c now))) =
     [Some ''accessToken'', Some ''refreshToken'', Some ''token''] \<and>
   (\<forall>t x. c ''refreshToken'' = Some t \<and> jwt_verify t (REFRESH_TOKEN_SECRET e) now = Inl x
      \<longrightarrow> fst (logout e st c now) = st) \<and>
   (c ''refreshToken'' = None \<longrightarrow> fst (logout e st c now) = st)"
  by (auto simp: logout_def Let_def clearAll_def cookie_def split: option.splits sum.splits)

text \<open>A logout with a malformed refresh-token cookie, one with an expired token, and one
  with no cookie at all.\<close>

theorem logout_always_succeeds_witness:
  "[''refreshToken'' \<mapsto> Raw ''garbage''] ''refreshToken'' = Some (Raw ''garbage'') \<and>
   jwt_verify (Raw ''garbage'') (REFRESH_TOKEN_SECRET env0) 9000
     = Inl (JsonWebTokenError ''jwt malformed'') \<and>
   fst (logout env0 st_al [''refreshToken'' \<mapsto> Raw ''garbage''] 9000) = st_al \<and>
   status (snd (logout env0 st_al [''refreshToken'' \<mapsto> Raw ''garbage''] 9000)) = 200 \<and>
   [''refreshToken'' \<mapsto> refresh_al] ''refreshToken'' = Some refresh_al \<and>
   jwt_verify refresh_al (REFRESH_TOKEN_SECRET env0) 604805000 = Inl TokenExpiredError \<and>
   fst (logout env0 st_al [''refreshToken'' \<mapsto> refresh_al] 604805000) = st_al \<and>
   status (snd (logout env0 st_al [''refreshToken'' \<mapsto> refresh_al] 604805000)) = 200 \<and>
   Map.empty ''refreshToken'' = (None :: token option) \<and>
   fst (logout env0 st_al Map.empty 9000) = st_al \<and>
   status (snd (logout env0 st_al Map.empty 9000)) = 200"
proof -
  note main = logout_always_succeeds
  have h1: "[''refreshToken'' \<mapsto> Raw ''garbage''] ''refreshToken'' = Some (Raw ''garbage'') \<and>
      jwt_verify (Raw ''garbage'') (REFRESH_TOKEN_SECRET env0) 9000
        = Inl (JsonWebTokenError ''jwt malformed'')"
    by (simp add: refresh_al_verifies)
  have h2: "[''refreshToken'' \<mapsto> refresh_al] ''refreshToken'' = Some refresh_al \<and>
      jwt_verify refresh_al (REFRESH_TOKEN_SECRET env0) 604805000 = Inl TokenExpiredError"
    by (simp add: refresh_al_verifies)
  have h3: "Map.empty ''refreshToken'' = (None :: token option)" by simp
  note m1 = main[where e = env0 and st = st_al and now = 9000
      and c = "[''refreshToken'' \<mapsto> Raw ''garbage'']"]
  note m2 = main[where e = env0 and st = st_al and now = 604805000
      and c = "[''refreshToken'' \<mapsto> refresh_al]"]
  note m3 = main[where e = env0 and st = st_al and now = 9000 and c = Map.empty]
  note s1 = m1[THEN conjunct1]
  note s2 = m2[THEN conjunct1]
  note s3 = m3[THEN conjunct1]
  note u1 = m1[THEN conjunct2, THEN conjunct2, THEN conjunct2, THEN conjunct1, rule_format, OF h1]
  note u2 = m2[THEN conjunct2, THEN conjunct2, THEN conjunct2, THEN conjunct1, rule_format, OF h2]
  note u3 = m3[THEN conjunct2, THEN conjunct2, THEN conjunct2, THEN conjunct2, rule_format, OF h3]
  from h1 h2 h3 s1 s2 s3 u1 u2 u3 show ?thesis by blast
qed

section \<open>Issued tokens and their cookies\<close>

text \<open>
  C9. Every pair that \<open>generateAuthTokens\<close> issues consists of an access token signed
  with \<open>JWT_SECRET\<close>, carrying the user's id and role and expiring 15 minutes after
  issuance, and a refresh token signed with \<open>REFRESH_TOKEN_SECRET\<close>, carrying the id and
  no role and expiring 7 days after issuance. Each verifies under its own secret exactly
  until its expiry; when the two configured secrets differ, neither verifies under the
  other. The cookies that transport them have a \<open>maxAge\<close> of 15 minutes and of 7 days.
\<close>

theorem issued_token_shape:
  assumes "generateAuthTokens e u now = Inr (accessToken, refreshTok)"
  shows "\<exists>a b. JWT_SECRET e = Some a \<and> REFRESH_TOKEN_SECRET e = Some b \<and>
           accessToken = Jwt a (Claims (uid u) (Some (role u)) (now div 1000) (now div 1000 + 15 * 60)) 0 \<and>
           refreshTok = Jwt b (Claims (uid u) None (now div 1000) (now div 1000 + 7 * 24 * 60 * 60)) 0 \<and>
           (\<forall>t. (\<exists>d. jwt_verify accessToken (JWT_SECRET e) t = Inr d) \<longleftrightarrow>
                  t div 1000 < now div 1000 + 15 * 60) \<and>
           (\<forall>t. (\<exists>d. jwt_verify refreshTok (REFRESH_TOKEN_SECRET e) t = Inr d) \<longleftrightarrow>
                  t div 1000 < now div 1000 + 7 * 24 * 60 * 60) \<and>
           (a \<noteq> b \<longrightarrow>
              (\<forall>t. jwt_verify refreshTok (JWT_SECRET e) t = Inl (JsonWebTokenError ''invalid signature'') \<and>
                   jwt_verify accessToken (REFRESH_TOKEN_SECRET e) t =
                     Inl (JsonWebTokenError ''invalid signature''))) \<and>
           setTokenCookies e accessToken refreshTok =
             [SetCookie ''accessToken'' accessToken (getCookieOptions e False),
              SetCookie ''refreshToken'' refreshTok (getCookieOptions e True),
              ClearCookie ''token'' ((getCookieOptions e False)\<lparr>path := ''/''\<rparr>)] \<and>
           maxAge (getCookieOptions e False) = Some (15 * 60 * 1000) \<and>
           maxAge (getCookieOptions e True) = Some (7 * 24 * 60 * 60 * 1000)"
proof -
  from generateAuthTokens_Inr[OF assms] obtain a b where
    ab: "JWT_SECRET e = Some a" "REFRESH_TOKEN_SECRET e = Some b" "a \<noteq> []" "b \<noteq> []"
      "accessToken = Jwt a (Claims (uid u) (Some (role u)) (now div 1000) (now div 1000 + 900)) 0"
      "refreshTok = Jwt b (Claims (uid u) None (now div 1000) (now div 1000 + 604800)) 0"
    by blast
  then show ?thesis
    by (auto simp: setTokenCookies_def getCookieOptions_def)
qed

text \<open>The pair issued to the registered user at clock value 5000.\<close>

theorem issued_token_shape_witness:
  "generateAuthTokens env0 al 5000 = Inr (access_al, refresh_al) \<and>
   access_al = Jwt ''A'' (Claims 0 (Some RUser) 5 905) 0 \<and>
   refresh_al = Jwt ''B'' (Claims 0 None 5 604805) 0 \<and>
   (\<exists>a b. JWT_SECRET env0 = Some a \<and> REFRESH_TOKEN_SECRET env0 = Some b \<and>
      access_al = Jwt a (Claims (uid al) (Some (role al)) (5000 div 1000) (5000 div 1000 + 15 * 60)) 0 \<and>
      refresh_al = Jwt b (Claims (uid al) None (5000 div 1000) (5000 div 1000 + 7 * 24 * 60 * 60)) 0) \<and>
   maxAge (getCookieOptions env0 False) = Some (15 * 60 * 1000) \<and>
   maxAge (getCookieOptions env0 True) = Some (7 * 24 * 60 * 60 * 1000)"
proof -
  have h: "generateAuthTokens env0 al 5000 = Inr (access_al, refresh_al)"
    by (simp add: generateAuthTokens_def env0_def jwt_sign_def al_def access_al_def
        refresh_al_def)
  note r = issued_token_shape[OF h]
  from r have "\<exists>a b. JWT_SECRET env0 = Some a \<and> REFRESH_TOKEN_SECRET env0 = Some b \<and>
      access_al = Jwt a (Claims (uid al) (Some (role al)) (5000 div 1000) (5000 div 1000 + 15 * 60)) 0 \<and>
      refresh_al = Jwt b (Claims (uid al) None (5000 div 1000) (5000 div 1000 + 7 * 24 * 60 * 60)) 0"
    by blast
  moreover from r have "maxAge (getCookieOptions env0 False) = Some (15 * 60 * 1000)"
    and "maxAge (getCookieOptions env0 True) = Some (7 * 24 * 60 * 60 * 1000)"
    by blast+
  ultimately show ?thesis using h by (simp add: access_al_def refresh_al_def)
qed

section \<open>Registration and the uniqueness of emails\<close>

text \<open>
  C7. Take two registration requests whose emails are equal after trimming and lowering
  the case, handled one after the other. If the emails of the store were pairwise
  different before, they are so afterwards, and at most one record has this email. If the
  first registration succeeds and the second request passes input validation, the second
  is answered with 400 \<open>Email is already registered\<close>; the store after it is the store
  before it (no record written, no salt drawn, so no hash computed), and exactly one
  record has this email.
\<close>

theorem register_duplicate_rejected:
  assumes same: "lowercase (trim (field b2 ''email'')) = lowercase (trim (field b1 ''email''))"
    and first: "register e isEmail st b1 now1 = (st1, r1)"
    and second: "register e isEmail st1 b2 now2 = (st2, r2)"
  shows "(distinct (map email (users st)) \<longrightarrow>
            distinct (map email (users st2)) \<and>
            length (filter (\<lambda>u. email u = lowercase (trim (field b1 ''email''))) (users st2)) \<le> 1) \<and>
         (status r1 = 201 \<and> register_errors isEmail b2 = [] \<longrightarrow>
            st2 = st1 \<and>
            r2 = \<lparr>status = 400,
                  body = [(''success'', Atom (ABool False)),
                          (''message'', Atom (AStr ''Email is already registered''))],
                  cookie_ops = []\<rparr> \<and>
            next_salt st2 = next_salt st1 \<and>
            length (filter (\<lambda>u. email u = lowercase (trim (field b1 ''email''))) (users st2)) = 1)"
proof (intro conjI impI)
  assume d: "distinct (map email (users st))"
  have "distinct (map email (users st1))"
    using register_distinct[OF d, of e isEmail b1 now1] first by simp
  then show d2: "distinct (map email (users st2))"
    using register_distinct[of st1 e isEmail b2 now2] second by simp
  show "length (filter (\<lambda>u. email u = lowercase (trim (field b1 ''email''))) (users st2)) \<le> 1"
    using distinct_count_le_1[OF d2] by (simp add: count_email)
next
  assume a: "status r1 = 201 \<and> register_errors isEmail b2 = []"
  let ?x = "lowercase (trim (field b1 ''email''))"
  have x1: "set_email (trim (field b1 ''email'')) = ?x"
    by (simp add: set_email_trim)
  have x2: "set_email (trim (field b2 ''email'')) = ?x"
    using same by (simp add: set_email_trim)
  from register_201_store[OF first] a x1
  have none: "?x \<notin> set (map email (users st))"
    and emails: "map email (users st1) = map email (users st) @ [?x]"
    by (simp_all add: findOne_email_None_iff)
  from emails x2 have "findOne_email st1 (trim (field b2 ''email'')) \<noteq> None"
    by (simp add: findOne_email_None_iff)
  then obtain v where v: "findOne_email st1 (trim (field b2 ''email'')) = Some v" by blast
  have dup: "register e isEmail st1 b2 now2 =
           (st1, \<lparr>status = 400,
                  body = [(''success'', Atom (ABool False)),
                          (''message'', Atom (AStr ''Email is already registered''))],
                  cookie_ops = []\<rparr>)"
    using a v by (simp add: register_def Let_def)
  with second show st: "st2 = st1" by simp
  from dup second show "r2 = \<lparr>status = 400,
                  body = [(''success'', Atom (ABool False)),
                          (''message'', Atom (AStr ''Email is already registered''))],
                  cookie_ops = []\<rparr>"
    by simp
  from st show "next_salt st2 = next_salt st1" by simp
  have "filter (\<lambda>y. y = ?x) (map email (users st)) = []"
    using none by (force simp: filter_empty_conv)
  then show "length (filter (\<lambda>u. email u = ?x) (users st2)) = 1"
    by (simp add: st count_email emails)
qed

text \<open>The registration of the worked store, followed by a second request for the same
  address in another case and with trailing white space.\<close>

theorem register_duplicate_rejected_witness:
  "lowercase (trim (field body_al_again ''email'')) = lowercase (trim (field body_al ''email'')) \<and>
   register env0 match_email st0 body_al 5000 = (st_al, resp_al) \<and>
   distinct (map email (users st0)) \<and>
   status resp_al = 201 \<and>
   register_errors match_email body_al_again = [] \<and>
   register env0 match_email st_al body_al_again 7000 =
     (st_al, \<lparr>status = 400,
              body = [(''success'', Atom (ABool False)),
                      (''message'', Atom (AStr ''Email is already registered''))],
              cookie_ops = []\<rparr>) \<and>
   length (filter (\<lambda>u. email u = lowercase (trim (field body_al ''email''))) (users st_al)) = 1"
proof -
  have same: "lowercase (trim (field body_al_again ''email''))
      = lowercase (trim (field body_al ''email''))"
    by (simp add: body_al_again_def body_al_def field_def trim_examples lowercase_examples)
  have d: "distinct (map email (users st0))" by (simp add: st0_def)
  have ok: "status resp_al = 201" by (simp add: resp_al_def)
  obtain st2 r2 where second: "register env0 match_email st_al body_al_again 7000 = (st2, r2)"
    by (cases "register env0 match_email st_al body_al_again 7000")
  note r = register_duplicate_rejected[OF same register_al second, THEN conjunct2, rule_format,
      OF conjI[OF ok register_errors_examples(2)]]
  from r have st2: "st2 = st_al"
    and r2: "r2 = \<lparr>status = 400,
              body = [(''success'', Atom (ABool False)),
                      (''message'', Atom (AStr ''Email is already registered''))],
              cookie_ops = []\<rparr>"
    and one: "length (filter (\<lambda>u. email u = lowercase (trim (field body_al ''email'')))
                (users st2)) = 1"
    by blast+
  from second st2 r2 have dup: "register env0 match_email st_al body_al_again 7000 =
     (st_al, \<lparr>status = 400,
              body = [(''success'', Atom (ABool False)),
                      (''message'', Atom (AStr ''Email is already registered''))],
              cookie_ops = []\<rparr>)"
    by simp
  from one st2 have one': "length (filter (\<lambda>u. email u = lowercase (trim (field body_al ''email'')))
                (users st_al)) = 1"
    by simp
  show ?thesis
    by (intro conjI) (rule same register_al d ok register_errors_examples(2) dup one')+
qed

section \<open>What a success response carries\<close>

text \<open>
  C8. In the response of a successful registration (201) and of a successful login (200)
  the \<open>user\<close> object has no \<open>password\<close> member and no \<open>refreshToken\<close> member; no
  value anywhere in the body is a password hash; the refresh token is set as the
  \<open>refreshToken\<close> cookie, and no value anywhere in the body is that token.
\<close>

theorem responses_hide_secrets:
  assumes "r = snd (register e isEmail st b now) \<and> status r = 201 \<or>
           r = snd (login e isEmail st b now) \<and> status r = 200"
  shows "\<exists>obj. user_object r = Some obj \<and>
          ''password'' \<notin> fst ` set obj \<and> ''refreshToken'' \<notin> fst ` set obj \<and>
          (\<forall>a \<in> set (body_atoms r). \<not> is_hash a) \<and>
          (\<exists>rt opts. SetCookie ''refreshToken'' rt opts \<in> set (cookie_ops r)) \<and>
          (\<forall>rt opts. SetCookie ''refreshToken'' rt opts \<in> set (cookie_ops r) \<longrightarrow>
             ATok rt \<notin> set (body_atoms r))"
  using assms
proof
  assume a: "r = snd (register e isEmail st b now) \<and> status r = 201"
  then have "status (snd (register e isEmail st b now)) = 201" by blast
  from register_201[OF this] a obtain u accessToken refreshTok where
    "generateAuthTokens e u now = Inr (accessToken, refreshTok)"
    "r = \<lparr>status = 201,
        body = [(''success'', Atom (ABool True)),
                (''message'', Atom (AStr
                   ''Registration successful. Please check your email to verify your account.'')),
                (''user'', Obj (delete_key ''refreshToken'' (delete_key ''password''
                     (toObject (u\<lparr>refreshToken := Some refreshTok, updatedAt := now\<rparr>))))),
                (''accessToken'', Atom (ATok accessToken))],
        cookie_ops = setTokenCookies e accessToken refreshTok\<rparr>"
    by auto
  then show ?thesis by (rule success_body_safe)
next
  assume a: "r = snd (login e isEmail st b now) \<and> status r = 200"
  then have "status (snd (login e isEmail st b now)) = 200" by blast
  from login_200[OF this] a obtain u accessToken refreshTok where
    "generateAuthTokens e u now = Inr (accessToken, refreshTok)"
    "r = \<lparr>status = 200,
        body = [(''success'', Atom (ABool True)),
                (''message'', Atom (AStr ''Login successful'')),
                (''user'', Obj (delete_key ''refreshToken'' (delete_key ''password''
                     (toObject (u\<lparr>refreshToken := Some refreshTok\<rparr>))))),
                (''accessToken'', Atom (ATok accessToken))],
        cookie_ops = setTokenCookies e accessToken refreshTok\<rparr>"
    by auto
  then show ?thesis by (rule success_body_safe)
qed

text \<open>The response of the registration of the worked store, and of a login of the same
  user at 9000.\<close>

theorem responses_hide_secrets_witness:
  "resp_al = snd (register env0 match_email st0 body_al 5000) \<and> status resp_al = 201 \<and>
   (\<exists>obj. user_object resp_al = Some obj \<and>
      ''password'' \<notin> fst ` set obj \<and> ''refreshToken'' \<notin> fst ` set obj \<and>
      (\<exists>rt opts. SetCookie ''refreshToken'' rt opts \<in> set (cookie_ops resp_al))) \<and>
   ATok refresh_al \<notin> set (body_atoms resp_al) \<and>
   status (snd (login env0 match_email st_al login_al 9000)) = 200 \<and>
   (\<exists>obj. user_object (snd (login env0 match_email st_al login_al 9000)) = Some obj \<and>
      ''password'' \<notin> fst ` set obj \<and> ''refreshToken'' \<notin> fst ` set obj)"
proof -
  note main = responses_hide_secrets
  have h1: "resp_al = snd (register env0 match_email st0 body_al 5000)"
    by (simp add: register_al)
  have h2: "status resp_al = 201" by (simp add: resp_al_def)
  have ck: "SetCookie ''refreshToken'' refresh_al (getCookieOptions env0 True)
      \<in> set (cookie_ops resp_al)"
    by (simp add: resp_al_def setTokenCookies_def)
  note r1 = main[where r = resp_al and e = env0 and isEmail = match_email and st = st0
      and b = body_al and now = 5000, OF disjI1[OF conjI[OF h1 h2]]]
  from r1 have c1: "\<exists>obj. user_object resp_al = Some obj \<and>
      ''password'' \<notin> fst ` set obj \<and> ''refreshToken'' \<notin> fst ` set obj \<and>
      (\<exists>rt opts. SetCookie ''refreshToken'' rt opts \<in> set (cookie_ops resp_al))"
    by blast
  from r1 ck have c2: "ATok refresh_al \<notin> set (body_atoms resp_al)" by blast
  note h3 = login_al_200
  note r2 = main[where r = "snd (login env0 match_email st_al login_al 9000)" and e = env0
      and isEmail = match_email and st = st_al and b = login_al and now = 9000,
      OF disjI2[OF conjI[OF refl h3]]]
  from r2 have c3: "\<exists>obj. user_object (snd (login env0 match_email st_al login_al 9000)) = Some obj \<and>
      ''password'' \<notin> fst ` set obj \<and> ''refreshToken'' \<notin> fst ` set obj"
    by blast
  show ?thesis
    by (intro conjI) (rule h1 h2 c1 c2 h3 c3)+
qed

end
